theory Spec2Isabelle
  imports Complex_Main "HOL-Library.Word" "HOL-Library.AList"
begin

section \<open>Data model of the viewport renderer\<close>

text \<open>
  The development embeds \<^verbatim>\<open>FireRenderViewport.cpp\<close> (with the MASH instancer and the
  toon material that share the file).  The viewport object is a record of its member
  variables; the calls it makes on the renderer context, the host's texture manager and
  the host's view are external, so each one is written to a trace of events, and whatever
  an external call answers is read from an environment of oracles indexed by the trace at
  the moment of the call.  The trace is kept newest event first.
\<close>

type_synonym u32 = "32 word"

text \<open>The host's status codes (\<^verbatim>\<open>MStatus::MStatusCode\<close>).\<close>

datatype MStatus =
    kSuccess | kFailure | kInsufficientMemory | kInvalidParameter | kLicenseFailure
  | kUnknownParameter | kNotImplemented | kNotFound | kEndOfFile

text \<open>
  \<^verbatim>\<open>FireRenderContext::State\<close>.  The switch in \<^verbatim>\<open>RunOnViewportThread\<close> names four
  enumerators and has a \<^verbatim>\<open>default\<close> label; \<open>StateOther\<close> stands for any value the
  default label catches.
\<close>

datatype State = StateExiting | StateRendering | StatePaused | StateUpdating | StateOther nat

text \<open>\<^verbatim>\<open>RV_PIXEL\<close>: four floats, carried as data and never computed with.\<close>

datatype RV_PIXEL = RV_PIXEL rat rat rat rat

text \<open>\<^verbatim>\<open>RenderRegion\<close>, as the four constructor arguments in the order they are passed.\<close>

datatype RenderRegion = RenderRegion u32 u32 u32 u32

text \<open>A hardware texture handle of the host's texture manager.\<close>

datatype MTexture = MTexture nat

datatype MRasterFormat = kR32G32B32A32_FLOAT | kDefaultFormat

record MTextureDescription =
  fWidth :: u32
  fHeight :: u32
  fDepth :: u32
  fBytesPerRow :: u32
  fBytesPerSlice :: u32
  fFormat :: MRasterFormat

text \<open>Where a frame-buffer read is delivered: \<^verbatim>\<open>m_pixels\<close>, or the stored frame under a cache key.\<close>

datatype read_target = ToPixels | ToStoredFrame string

datatype event =
    CtxLock string
  | CtxRender
  | CtxResolveAOV
  | CtxReadFrameBuffer read_target u32 u32 RenderRegion
  | CtxCleanScene
  | CtxUpdateLimits bool
  | CtxResize u32 u32 bool
  | CtxSetCamera
  | CtxSetDirty
  | CtxFreshen
  | TexAcquire MTextureDescription "RV_PIXEL list"
  | TexUpdate MTexture "RV_PIXEL list"
  | TexRelease MTexture
  | ScheduleRefresh
  | Sleep nat
  | RunItemsQueuedForTheMainThread
  | KeepRunning
  | DialogClose
  | DialogShow

text \<open>What the render thread does while the main thread sleeps inside \<^verbatim>\<open>stop\<close>.\<close>

datatype thread_turn = Idle | LoopBodyRuns | ThreadEnds

text \<open>
  The environment.  \<open>FRMAYA_GL_MAX_TEXTURE_SIZE\<close> is a macro of a header that is not part
  of the file; it is taken as a parameter.  \<open>throws\<close> says whether the renderer call that
  was just written to the trace raises an exception.
\<close>

record env =
  FRMAYA_GL_MAX_TEXTURE_SIZE :: u32
  gExitingMaya :: bool
  isPlaying :: bool
  isScrubbing :: bool
  outputTargetSize :: "event list \<Rightarrow> MStatus \<times> u32 \<times> u32"
  throws :: "event list \<Rightarrow> bool"
  renderedPixels :: "event list \<Rightarrow> RV_PIXEL list"
  acquireTexture :: "event list \<Rightarrow> MTexture option"
  textureDescription :: "event list \<Rightarrow> MTextureDescription"
  textureUpdate :: "event list \<Rightarrow> MStatus"
  cameraAttributeChanged :: "event list \<Rightarrow> bool"
  needsRedraw :: "event list \<Rightarrow> bool"
  keepRenderRunning :: "event list \<Rightarrow> bool"
  isFirstIterationAndShadersNOTCached :: "event list \<Rightarrow> bool"
  getM3dViewFromModelPanel :: "event list \<Rightarrow> MStatus"
  getCamera :: "event list \<Rightarrow> MStatus"
  cameraPathIsValid :: "event list \<Rightarrow> bool"
  GetStateHash :: "event list \<Rightarrow> nat"
  renderThread :: "event list \<Rightarrow> thread_turn"

subsection \<open>getSize\<close>

text \<open>
  \<^verbatim>\<open>getSize\<close> asks the renderer for the output size and clamps it.  The arithmetic is
  that of \<^verbatim>\<open>unsigned int\<close>: the product wraps at \<open>2 ^ 32\<close> before the division.
\<close>

definition getSize :: "env \<Rightarrow> event list \<Rightarrow> MStatus \<times> u32 \<times> u32" where
  "getSize E tr =
     (case outputTargetSize E tr of (status, w, h) \<Rightarrow>
        if status \<noteq> kSuccess then (status, w, h)
        else if h < w \<and> FRMAYA_GL_MAX_TEXTURE_SIZE E < w then
          (kSuccess, FRMAYA_GL_MAX_TEXTURE_SIZE E, h * FRMAYA_GL_MAX_TEXTURE_SIZE E div w)
        else if FRMAYA_GL_MAX_TEXTURE_SIZE E < h then
          (kSuccess, w * FRMAYA_GL_MAX_TEXTURE_SIZE E div h, FRMAYA_GL_MAX_TEXTURE_SIZE E)
        else (kSuccess, w, h))"


subsection \<open>The viewport object\<close>

text \<open>
  What the viewport reads of its \<^verbatim>\<open>FireRenderContext\<close>: the state field it switches on
  and assigns, the frame-buffer dimensions, whether GL interop is active and whether the
  context is dirty.
\<close>

record FireRenderContext =
  state :: State
  width :: u32
  height :: u32
  isGLInteropActive :: bool
  isDirty :: bool

record StoredFrame =
  sfWidth :: u32
  sfHeight :: u32
  sfData :: "RV_PIXEL list"

text \<open>
  The member variables of \<^verbatim>\<open>FireRenderViewport\<close>, then the three pieces of the world it
  shares with other code: whether the render thread is alive
  (\<^verbatim>\<open>FireRenderThread::IsThreadRunning()\<close>), whether the warning dialog is shown
  (\<^verbatim>\<open>rcWarningDialog.shown\<close>) and the trace of external calls.  \<open>m_error\<close> is true when
  an exception has been stored in the error handler, which is what \<^verbatim>\<open>m_error.check()\<close> reports.
\<close>

record FireRenderViewport =
  m_context :: FireRenderContext
  m_isRunning :: bool
  m_useAnimationCache :: bool
  m_pixelsUpdated :: bool
  m_panelName :: string
  m_textureChanged :: bool
  m_showDialogNeeded :: bool
  m_closeDialogNeeded :: bool
  m_createFailed :: bool
  m_renderingErrors :: int
  m_error :: bool
  m_texture :: "MTexture option"
  m_textureDesc :: MTextureDescription
  m_pixels :: "RV_PIXEL list"
  m_textureCache :: "string \<rightharpoonup> StoredFrame"
  threadRunning :: bool
  dialogShown :: bool
  trace :: "event list"

datatype 'a outcome = Returns 'a | Throws

definition emit :: "event \<Rightarrow> FireRenderViewport \<Rightarrow> FireRenderViewport" where
  "emit e s = s\<lparr>trace := e # trace s\<rparr>"

text \<open>
  A call on the renderer that may raise: the call is written to the trace, and the first
  component of the result says whether it raised.
\<close>

definition call :: "env \<Rightarrow> event \<Rightarrow> FireRenderViewport \<Rightarrow> bool \<times> FireRenderViewport" where
  "call E e s = (throws E (e # trace s), emit e s)"

subsection \<open>The animation-frame cache\<close>

text \<open>
  Modelled from the spec: \<^verbatim>\<open>StoredFrame::Resize\<close> is declared in a header that is not
  part of the file.  The frame "required resizing to the requested width and height"
  exactly when its dimensions differ from the requested ones; the resized frame has
  room for \<open>width * height\<close> pixels.
\<close>

definition Resize :: "u32 \<Rightarrow> u32 \<Rightarrow> StoredFrame \<Rightarrow> bool \<times> StoredFrame" where
  "Resize w h f =
     (if sfWidth f = w \<and> sfHeight f = h then (False, f)
      else (True, \<lparr>sfWidth = w, sfHeight = h,
                   sfData = replicate (unat w * unat h) (RV_PIXEL 0 0 0 0)\<rparr>))"

text \<open>
  Modelled from the spec: \<^verbatim>\<open>TextureCache::operator[]\<close> is not part of the file.  It
  yields "the cached frame keyed by" the string, a fresh empty frame when there is none.
\<close>

definition cacheLookup :: "(string \<rightharpoonup> StoredFrame) \<Rightarrow> string \<Rightarrow> StoredFrame" where
  "cacheLookup c k =
     (case c k of Some f \<Rightarrow> f | None \<Rightarrow> \<lparr>sfWidth = 0, sfHeight = 0, sfData = []\<rparr>)"

text \<open>The decimal digits that \<^verbatim>\<open>operator<<\<close> prints for a \<^verbatim>\<open>size_t\<close>.\<close>

function decimal :: "nat \<Rightarrow> string" where
  "decimal n = (if n < 10 then [char_of (48 + n)]
                else decimal (n div 10) @ [char_of (48 + n mod 10)])"
  by pat_completeness auto
termination
  by (relation "measure id") auto

declare decimal.simps [simp del]

definition frameKey :: "string \<Rightarrow> nat \<Rightarrow> string" where
  "frameKey panel hash = panel @ '';'' @ decimal (hash mod 2 ^ 64)"

subsection \<open>Texture upload\<close>

definition updateTexture ::
  "env \<Rightarrow> RV_PIXEL list \<Rightarrow> u32 \<Rightarrow> u32 \<Rightarrow> FireRenderViewport \<Rightarrow> MStatus \<times> FireRenderViewport" where
  "updateTexture E data w h s =
     (case m_texture s of
        None \<Rightarrow>
          let desc = \<lparr>fWidth = w, fHeight = h, fDepth = 1, fBytesPerRow = 16 * w,
                      fBytesPerSlice = 16 * w * h, fFormat = kR32G32B32A32_FLOAT\<rparr>;
              s1 = emit (TexAcquire desc data) (s\<lparr>m_textureDesc := desc\<rparr>);
              s2 = (case acquireTexture E (trace s1) of
                      None \<Rightarrow> s1\<lparr>m_texture := None\<rparr>
                    | Some t \<Rightarrow> s1\<lparr>m_texture := Some t,
                                    m_textureDesc := textureDescription E (trace s1)\<rparr>)
          in (kSuccess, s2\<lparr>m_textureChanged := True\<rparr>)
      | Some t \<Rightarrow>
          let s1 = emit (TexUpdate t data) s in (textureUpdate E (trace s1), s1))"

definition hasTextureChanged :: "FireRenderViewport \<Rightarrow> bool \<times> FireRenderViewport" where
  "hasTextureChanged s = (m_textureChanged s, s\<lparr>m_textureChanged := False\<rparr>)"

subsection \<open>Frame-buffer readback\<close>

text \<open>
  The stored frame is passed by pointer in the source; the only caller passes the frame
  that lives in the cache, so the pointer is the cache key, and \<open>None\<close> is the null
  pointer.  The renderer's read fills the destination buffer with the pixels it delivers.
\<close>

definition readFrameBuffer ::
  "env \<Rightarrow> string option \<Rightarrow> FireRenderViewport \<Rightarrow> bool \<times> FireRenderViewport" where
  "readFrameBuffer E storedFrame s =
     (if isGLInteropActive (m_context s) then call E CtxResolveAOV s
      else
        let region = RenderRegion 0 (width (m_context s) - 1) 0 (height (m_context s) - 1) in
        case storedFrame of
          Some key \<Rightarrow>
            let (threw, s1) =
                  call E (CtxReadFrameBuffer (ToStoredFrame key)
                            (width (m_context s)) (height (m_context s)) region) s
            in if threw then (True, s1)
               else (False,
                     case m_textureCache s1 key of
                       None \<Rightarrow> s1
                     | Some f \<Rightarrow>
                         s1\<lparr>m_textureCache :=
                              (m_textureCache s1)(key \<mapsto> f\<lparr>sfData := renderedPixels E (trace s1)\<rparr>)\<rparr>)
        | None \<Rightarrow>
            let (threw, s1) =
                  call E (CtxReadFrameBuffer ToPixels
                            (width (m_context s)) (height (m_context s)) region) s
            in if threw then (True, s1)
               else (False, s1\<lparr>m_pixels := renderedPixels E (trace s1), m_pixelsUpdated := True\<rparr>))"


subsection \<open>One step of the render loop\<close>

text \<open>
  The body of the \<^verbatim>\<open>try\<close> block of \<^verbatim>\<open>RunOnViewportThread\<close>: take the context lock,
  render one iteration, read the frame buffer, and count one error down.  The first
  component says whether an exception left the block.
\<close>

definition tryRenderIteration :: "env \<Rightarrow> FireRenderViewport \<Rightarrow> bool \<times> FireRenderViewport" where
  "tryRenderIteration E s =
     (let (threw, s1) = call E (CtxLock ''FireRenderContext::StateRendering'') s in
      if threw then (True, s1)
      else
        let (threw, s2) = call E CtxRender s1 in
        if threw then (True, s2)
        else
          let (threw, s3) = readFrameBuffer E None (s2\<lparr>m_closeDialogNeeded := True\<rparr>) in
          if threw then (True, s3)
          else (False, if 0 < m_renderingErrors s3
                       then s3\<lparr>m_renderingErrors := m_renderingErrors s3 - 1\<rparr> else s3))"

definition renderRequired :: "env \<Rightarrow> FireRenderViewport \<Rightarrow> bool" where
  "renderRequired E s \<longleftrightarrow>
     cameraAttributeChanged E (trace s) \<or> needsRedraw E (trace s) \<or> keepRenderRunning E (trace s)"

definition RunOnViewportThread ::
  "env \<Rightarrow> FireRenderViewport \<Rightarrow> bool outcome \<times> FireRenderViewport" where
  "RunOnViewportThread E s =
     (case state (m_context s) of
        StateExiting \<Rightarrow> (Returns False, s)
      | StateRendering \<Rightarrow>
          if renderRequired E s then
            let (threw, s1) = tryRenderIteration E s in
            if threw then
              let s2 = (emit ScheduleRefresh s1)\<lparr>m_renderingErrors := m_renderingErrors s1 + 1\<rparr> in
              if 3 < m_renderingErrors s2 then (Throws, s2)
              else (Returns True, emit ScheduleRefresh s2)
            else (Returns True, emit ScheduleRefresh s1)
          else (Returns True, emit (Sleep 2) s)
      | StatePaused \<Rightarrow> (Returns True, emit (Sleep 5) s)
      | StateUpdating \<Rightarrow> (Returns True, emit (Sleep 5) s)
      | StateOther k \<Rightarrow> (Returns True, emit (Sleep 5) s))"

text \<open>The function that \<^verbatim>\<open>start\<close> hands to \<^verbatim>\<open>FireRenderThread::KeepRunning\<close>.\<close>

definition renderLoopBody :: "env \<Rightarrow> FireRenderViewport \<Rightarrow> FireRenderViewport" where
  "renderLoopBody E s =
     (case RunOnViewportThread E s of
        (Returns b, s1) \<Rightarrow> s1\<lparr>m_isRunning := b\<rparr>
      | (Throws, s1) \<Rightarrow> s1\<lparr>m_isRunning := False, m_error := True\<rparr>)"

subsection \<open>Stopping and starting the render loop\<close>

text \<open>
  \<^verbatim>\<open>stop\<close> waits for the render thread.  While the main thread sleeps, the render
  thread does what the environment says: nothing, one run of the loop body, or it ends.
  The wait may go on forever, so it takes fuel, and \<open>None\<close> is the wait that has not
  ended within the fuel.
\<close>

definition renderThreadTurn :: "env \<Rightarrow> FireRenderViewport \<Rightarrow> FireRenderViewport" where
  "renderThreadTurn E s =
     (case renderThread E (trace s) of
        Idle \<Rightarrow> s
      | LoopBodyRuns \<Rightarrow> renderLoopBody E s
      | ThreadEnds \<Rightarrow> s\<lparr>threadRunning := False\<rparr>)"

definition stopIteration :: "env \<Rightarrow> FireRenderViewport \<Rightarrow> FireRenderViewport" where
  "stopIteration E s =
     (let s1 = emit RunItemsQueuedForTheMainThread s;
          s2 = s1\<lparr>m_context := (m_context s1)\<lparr>state := StateExiting\<rparr>\<rparr>
      in renderThreadTurn E (emit (Sleep 10) s2))"

fun stopWait :: "env \<Rightarrow> nat \<Rightarrow> FireRenderViewport \<Rightarrow> FireRenderViewport option" where
  "stopWait E 0 s = (if m_isRunning s \<and> threadRunning s then None else Some s)"
| "stopWait E (Suc n) s =
     (if m_isRunning s \<and> threadRunning s then stopWait E n (stopIteration E s) else Some s)"

text \<open>The result of \<^verbatim>\<open>stop\<close> in the source is the constant \<^verbatim>\<open>true\<close>; the model returns the state.\<close>

definition stop :: "env \<Rightarrow> nat \<Rightarrow> FireRenderViewport \<Rightarrow> FireRenderViewport option" where
  "stop E n s =
     (case stopWait E n s of
        None \<Rightarrow> None
      | Some s1 \<Rightarrow>
          Some (if dialogShown s1 \<and> m_closeDialogNeeded s1
                then (emit DialogClose s1)\<lparr>dialogShown := False\<rparr> else s1))"

definition start :: "env \<Rightarrow> nat \<Rightarrow> FireRenderViewport \<Rightarrow> (bool \<times> FireRenderViewport) option" where
  "start E n s =
     (case (if m_isRunning s then stop E n s else Some s) of
        None \<Rightarrow> None
      | Some s1 \<Rightarrow>
          if width (m_context s1) = 0 \<or> height (m_context s1) = 0 then Some (False, s1)
          else
            let s2 = emit (CtxLock ''FireRenderViewport::start'') s1;
                s3 = s2\<lparr>m_context := (m_context s2)\<lparr>state := StateRendering\<rparr>\<rparr>;
                s4 = s3\<lparr>m_isRunning := False, m_renderingErrors := 0\<rparr>
            in Some (True, emit KeepRunning s4))"

subsection \<open>Resizing\<close>

definition clearPixels :: "FireRenderViewport \<Rightarrow> FireRenderViewport" where
  "clearPixels s = s\<lparr>m_pixels := map (\<lambda>_. RV_PIXEL 0 0 0 1) (m_pixels s)\<rparr>"

text \<open>\<^verbatim>\<open>std::vector::resize\<close>: keep what fits, append value-initialised pixels.\<close>

definition vectorResize :: "nat \<Rightarrow> RV_PIXEL list \<Rightarrow> RV_PIXEL list" where
  "vectorResize n xs = take n xs @ replicate (n - length xs) (RV_PIXEL 0 0 0 0)"

definition ctxResize :: "env \<Rightarrow> u32 \<Rightarrow> u32 \<Rightarrow> bool \<Rightarrow> FireRenderViewport \<Rightarrow> bool \<times> FireRenderViewport" where
  "ctxResize E w h gl s =
     (let (threw, s1) = call E (CtxResize w h gl) s in
      if threw then (True, s1)
      else (False, s1\<lparr>m_context := (m_context s1)\<lparr>width := w, height := h\<rparr>\<rparr>))"

definition resizeFrameBufferStandard ::
  "env \<Rightarrow> u32 \<Rightarrow> u32 \<Rightarrow> FireRenderViewport \<Rightarrow> bool \<times> FireRenderViewport" where
  "resizeFrameBufferStandard E w h s =
     (let (threw, s1) = ctxResize E w h False s in
      if threw then (True, s1)
      else
        let s2 = s1\<lparr>m_pixels := vectorResize (unat (w * h)) (m_pixels s1)\<rparr>;
            (threw, s3) = readFrameBuffer E None s2
        in if threw then (True, s3)
           else (False, snd (updateTexture E (m_pixels s3) w h s3)))"

definition resizeFrameBufferGLInterop ::
  "env \<Rightarrow> u32 \<Rightarrow> u32 \<Rightarrow> FireRenderViewport \<Rightarrow> bool \<times> FireRenderViewport" where
  "resizeFrameBufferGLInterop E w h s =
     (let s1 = clearPixels (s\<lparr>m_pixels := vectorResize (unat (w * h)) (m_pixels s)\<rparr>);
          s2 = snd (updateTexture E (m_pixels s1) w h s1)
      in if m_texture s2 \<noteq> None then ctxResize E w h True s2 else (False, s2))"

definition resize :: "env \<Rightarrow> u32 \<Rightarrow> u32 \<Rightarrow> FireRenderViewport \<Rightarrow> MStatus \<times> FireRenderViewport" where
  "resize E w h s =
     (let s1 = s\<lparr>m_textureCache := Map.empty\<rparr>;
          s2 = (case m_texture s1 of
                  None \<Rightarrow> s1
                | Some t \<Rightarrow> (emit (TexRelease t) s1)\<lparr>m_texture := None\<rparr>);
          s3 = (if isFirstIterationAndShadersNOTCached E (trace s2)
                then s2\<lparr>m_closeDialogNeeded := False, m_showDialogNeeded := True\<rparr> else s2);
          (threw, s4) = (if isGLInteropActive (m_context s3)
                         then resizeFrameBufferGLInterop E w h s3
                         else resizeFrameBufferStandard E w h s3)
      in if threw then (kFailure, s4\<lparr>m_error := True\<rparr>)
         else if getM3dViewFromModelPanel E (trace s4) \<noteq> kSuccess
           then (getM3dViewFromModelPanel E (trace s4), s4)
         else if getCamera E (trace s4) \<noteq> kSuccess then (getCamera E (trace s4), s4)
         else
           let (threw, s5) = (if cameraPathIsValid E (trace s4) then call E CtxSetCamera s4
                              else (False, s4))
           in if threw then (kFailure, s5\<lparr>m_error := True\<rparr>)
              else
                let s6 = emit CtxSetDirty s5
                in (kSuccess, s6\<lparr>m_context := (m_context s6)\<lparr>isDirty := True\<rparr>\<rparr>))"

subsection \<open>Cached frames, context refresh and setup\<close>

definition renderCached ::
  "env \<Rightarrow> u32 \<Rightarrow> u32 \<Rightarrow> FireRenderViewport \<Rightarrow> MStatus \<times> FireRenderViewport" where
  "renderCached E w h s =
     (let s0 = s\<lparr>m_pixelsUpdated := False\<rparr>;
          key = frameKey (m_panelName s0) (GetStateHash E (trace s0));
          (resized, frame) = Resize w h (cacheLookup (m_textureCache s0) key);
          s1 = s0\<lparr>m_textureCache := (m_textureCache s0)(key \<mapsto> frame)\<rparr>
      in if resized then
           let (threw, s2) = call E CtxRender s1 in
           if threw then (kFailure, s2\<lparr>m_error := True\<rparr>)
           else
             let (threw, s3) = readFrameBuffer E (Some key) s2 in
             if threw then (kFailure, s3\<lparr>m_error := True\<rparr>)
             else updateTexture E (sfData (cacheLookup (m_textureCache s3) key)) w h s3
         else updateTexture E (sfData frame) w h s1)"

definition refreshContext :: "env \<Rightarrow> FireRenderViewport \<Rightarrow> MStatus \<times> FireRenderViewport" where
  "refreshContext E s =
     (if \<not> isDirty (m_context s) then (kSuccess, s)
      else
        let (threw, s1) = call E CtxFreshen s in
        if threw then (kFailure, s1\<lparr>m_error := True\<rparr>)
        else (kSuccess, s1\<lparr>m_context := (m_context s1)\<lparr>isDirty := False\<rparr>\<rparr>))"

definition doSetup ::
  "env \<Rightarrow> nat \<Rightarrow> FireRenderViewport \<Rightarrow> (MStatus \<times> FireRenderViewport) option" where
  "doSetup E n s =
     (if m_error s then Some (kFailure, s)
      else
        let (status, w, h) = getSize E (trace s) in
        if status \<noteq> kSuccess then Some (status, s)
        else
          let animating = (isPlaying E \<or> isScrubbing E);
              s1 = emit (CtxUpdateLimits animating) s;
              useAnimationCache =
                (animating \<and> m_useAnimationCache s1 \<and> \<not> isGLInteropActive (m_context s1))
          in case (if m_isRunning s1 \<and> useAnimationCache then stop E n s1 else Some s1) of
               None \<Rightarrow> None
             | Some s2 \<Rightarrow>
                 let (status, s3) =
                       (if w \<noteq> width (m_context s2) \<or> h \<noteq> height (m_context s2)
                        then resize E w h s2 else (kSuccess, s2))
                 in if status \<noteq> kSuccess then Some (status, s3)
                    else
                      let (status, s4) = refreshContext E s3 in
                      if status \<noteq> kSuccess then Some (status, s4)
                      else if m_error s4 then Some (kFailure, s4)
                      else if useAnimationCache then
                        (let (status, s5) = renderCached E w h s4 in
                         if status \<noteq> kSuccess then Some (status, s5) else Some (kSuccess, s5))
                      else if \<not> m_isRunning s4 then
                        (case start E n s4 of
                           None \<Rightarrow> None
                         | Some (started, s5) \<Rightarrow> Some (kSuccess, s5))
                      else Some (kSuccess, s4))"

text \<open>The first step of \<^verbatim>\<open>setup\<close>: copy the CPU pixels to the host's texture when required.\<close>

definition setupCopyPixels :: "env \<Rightarrow> FireRenderViewport \<Rightarrow> FireRenderViewport" where
  "setupCopyPixels E s =
     (if \<not> isGLInteropActive (m_context s) \<and> m_pixelsUpdated s
      then snd (updateTexture E (m_pixels s) (width (m_context s)) (height (m_context s)) s)
      else s)"

text \<open>
  \<^verbatim>\<open>FireRenderViewport::setup\<close> (the name \<open>setup\<close> is a keyword of the theory language).
\<close>

definition setupViewport ::
  "env \<Rightarrow> nat \<Rightarrow> FireRenderViewport \<Rightarrow> (MStatus \<times> FireRenderViewport) option" where
  "setupViewport E n s = doSetup E n (setupCopyPixels E s)"

subsection \<open>Clean-up\<close>

definition cleanUp :: "env \<Rightarrow> FireRenderViewport \<Rightarrow> FireRenderViewport" where
  "cleanUp E s =
     (let s1 = emit CtxCleanScene s in
      case m_texture s1 of
        None \<Rightarrow> s1
      | Some t \<Rightarrow>
          if \<not> gExitingMaya E then (emit (TexRelease t) s1)\<lparr>m_texture := None\<rparr> else s1)"


subsection \<open>Observations on the trace\<close>


text \<open>The renderer call that \<^verbatim>\<open>readFrameBuffer()\<close> makes when no stored frame is given.\<close>

definition readEvent :: "FireRenderViewport \<Rightarrow> event" where
  "readEvent s =
     (if isGLInteropActive (m_context s) then CtxResolveAOV
      else CtxReadFrameBuffer ToPixels (width (m_context s)) (height (m_context s))
             (RenderRegion 0 (width (m_context s) - 1) 0 (height (m_context s) - 1)))"


section \<open>The MASH instancer\<close>

text \<open>
  The matrices and transformations are the host's (\<^verbatim>\<open>MMatrix\<close>,
  \<^verbatim>\<open>MTransformationMatrix\<close>); they are computed by the host in floating point, so the
  model takes their types and operations as parameters.  \<open>deg2rad\<close> is a helper of
  another file and is a parameter too.
\<close>

datatype MSpace = kObject | kWorld

datatype RotationOrder = kXYZ | kYZX | kZXY | kXZY | kYXZ | kZYX

type_synonym MVector = "real \<times> real \<times> real"

record ('m, 't) MayaMath =
  identityTransformation :: 't
  setScale :: "MVector \<Rightarrow> MSpace \<Rightarrow> 't \<Rightarrow> 't"
  setRotation :: "MVector \<Rightarrow> RotationOrder \<Rightarrow> 't \<Rightarrow> 't"
  setTranslation :: "MVector \<Rightarrow> MSpace \<Rightarrow> 't \<Rightarrow> 't"
  asMatrix :: "'t \<Rightarrow> 'm"
  matrixMult :: "'m \<Rightarrow> 'm \<Rightarrow> 'm"
  deg2rad :: "real \<Rightarrow> real"

text \<open>
  An instanced mesh, as far as the instancer acts on it: the transform last given to
  \<^verbatim>\<open>SetSelfTransform\<close> (none yet for a new instance), how often \<^verbatim>\<open>Rebuild\<close> ran, and
  the dirty flag.
\<close>

record 'm FireRenderMeshMASH =
  selfTransform :: "'m option"
  rebuilds :: nat
  meshDirty :: bool

text \<open>
  What the host's dependency graph answers during one call: the \<^verbatim>\<open>instanceCount\<close> plug,
  the target objects connected to the instancer, the transformation of the parent of the
  render mesh of a target object (\<open>None\<close> when the context has no render object for it),
  the instancer's own transformation, and the three MASH arrays.
\<close>

record 't MASHScene =
  instanceCount :: nat
  targetObjects :: "nat list"
  targetParentTransformation :: "nat \<Rightarrow> 't option"
  instancerTransformation :: 't
  positionData :: "MVector list"
  rotationData :: "MVector list"
  scaleData :: "MVector list"

record 'm InstancerMASH =
  m_instancedObjects :: "(nat \<times> 'm FireRenderMeshMASH) list"
  m_instancedObjectsCachedSize :: nat

datatype mash_error = out_of_range | array_read_past_end | null_render_object

definition mashMatrix :: "('m, 't) MayaMath \<Rightarrow> MVector \<Rightarrow> MVector \<Rightarrow> MVector \<Rightarrow> 'm" where
  "mashMatrix M position rotation scale =
     (case rotation of (rx, ry, rz) \<Rightarrow>
        asMatrix M
          (setTranslation M position kWorld
            (setRotation M (deg2rad M rx, deg2rad M ry, deg2rad M rz) kXYZ
              (setScale M scale kWorld (identityTransformation M)))))"

fun transformMatricesLoop ::
  "('m, 't) MayaMath \<Rightarrow> 't MASHScene \<Rightarrow> nat list \<Rightarrow> mash_error + 'm list" where
  "transformMatricesLoop M sc [] = Inr []"
| "transformMatricesLoop M sc (i # rest) =
     (if i < length (positionData sc) \<and> i < length (rotationData sc) \<and> i < length (scaleData sc)
      then (case transformMatricesLoop M sc rest of
              Inl e \<Rightarrow> Inl e
            | Inr ms \<Rightarrow>
                Inr (mashMatrix M (positionData sc ! i) (rotationData sc ! i) (scaleData sc ! i) # ms))
      else Inl array_read_past_end)"

text \<open>The loop counter is \<^verbatim>\<open>unsigned\<close>, and the bound is the count cast to \<^verbatim>\<open>unsigned\<close>.\<close>

definition GetTransformMatrices ::
  "('m, 't) MayaMath \<Rightarrow> 't MASHScene \<Rightarrow> mash_error + 'm list" where
  "GetTransformMatrices M sc = transformMatricesLoop M sc [0 ..< instanceCount sc mod 2 ^ 32]"

definition newInstance :: "'m FireRenderMeshMASH" where
  "newInstance = \<lparr>selfTransform = None, rebuilds = 0, meshDirty = False\<rparr>"

fun generateLoop ::
  "nat list \<Rightarrow> (nat \<times> 'm FireRenderMeshMASH) list \<Rightarrow> (nat \<times> 'm FireRenderMeshMASH) list" where
  "generateLoop [] objs = objs"
| "generateLoop (i # rest) objs = generateLoop rest (AList.update i newInstance objs)"

definition GenerateInstances ::
  "'t MASHScene \<Rightarrow> 'm InstancerMASH \<Rightarrow> mash_error option \<times> 'm InstancerMASH" where
  "GenerateInstances sc node =
     (case targetObjects sc of
        [] \<Rightarrow> (Some out_of_range, node)
      | first # others \<Rightarrow>
          if instanceCount sc = 0 then (None, node)
          else if targetParentTransformation sc first = None then (Some null_render_object, node)
          else (None, node\<lparr>m_instancedObjects :=
                             generateLoop [0 ..< instanceCount sc] (m_instancedObjects node)\<rparr>))"

fun freshenLoop ::
  "('m, 't) MayaMath \<Rightarrow> 'm \<Rightarrow> 'm \<Rightarrow> 'm list \<Rightarrow> nat list \<Rightarrow> (nat \<times> 'm FireRenderMeshMASH) list
     \<Rightarrow> mash_error option \<times> (nat \<times> 'm FireRenderMeshMASH) list" where
  "freshenLoop M target instancer mats [] objs = (None, objs)"
| "freshenLoop M target instancer mats (i # rest) objs =
     (if length mats \<le> i then (Some out_of_range, objs)
      else
        case map_of objs i of
          None \<Rightarrow> (Some out_of_range, objs)
        | Some inst \<Rightarrow>
            freshenLoop M target instancer mats rest
              (AList.update i
                 (inst\<lparr>selfTransform := Some (matrixMult M (matrixMult M target (mats ! i)) instancer),
                       rebuilds := rebuilds inst + 1, meshDirty := True\<rparr>)
                 objs))"

definition Freshen ::
  "('m, 't) MayaMath \<Rightarrow> 't MASHScene \<Rightarrow> 'm InstancerMASH \<Rightarrow> mash_error option \<times> 'm InstancerMASH" where
  "Freshen M sc node =
     (case targetObjects sc of
        [] \<Rightarrow> (None, node)
      | first # others \<Rightarrow>
          (let (failed, node1) = (if m_instancedObjects node = [] then GenerateInstances sc node
                                  else (None, node))
           in if failed \<noteq> None then (failed, node1)
              else
                (case targetParentTransformation sc first of
                   None \<Rightarrow> (Some null_render_object, node1)
                 | Some parent \<Rightarrow>
                     (let targetNodeMatrix = setTranslation M (0, 0, 0) kObject parent;
                          instancerMatrix = instancerTransformation sc
                      in (case GetTransformMatrices M sc of
                            Inl e \<Rightarrow> (Some e, node1)
                          | Inr matricesFromMASH \<Rightarrow>
                              (let (failed, objs) =
                                     freshenLoop M (asMatrix M targetNodeMatrix)
                                       (asMatrix M instancerMatrix) matricesFromMASH
                                       [0 ..< instanceCount sc] (m_instancedObjects node1)
                               in if failed \<noteq> None
                                  then (failed, node1\<lparr>m_instancedObjects := objs\<rparr>)
                                  else (None, node1\<lparr>m_instancedObjects := objs,
                                                    m_instancedObjectsCachedSize :=
                                                      instanceCount sc\<rparr>)))))))"

section \<open>The toon material\<close>

datatype ShaderType = ShaderTypeToon | ShaderTypeTransparent

datatype ValueType = ValueTypeNormalMap | ValueTypeBumpMap | ValueTypeOther nat

text \<open>A \<^verbatim>\<open>frw::Value\<close>: its node type and which value it is.\<close>

datatype Value = Value ValueType nat

fun GetNodeType :: "Value \<Rightarrow> ValueType" where
  "GetNodeType (Value t v) = t"

datatype MaterialInput =
    RPR_MATERIAL_INPUT_COLOR | RPR_MATERIAL_INPUT_TOON_5_COLORS
  | RPR_MATERIAL_INPUT_HIGHLIGHT2 | RPR_MATERIAL_INPUT_HIGHLIGHT | RPR_MATERIAL_INPUT_MID
  | RPR_MATERIAL_INPUT_SHADOW | RPR_MATERIAL_INPUT_SHADOW2
  | RPR_MATERIAL_INPUT_POSITION_SHADOW | RPR_MATERIAL_INPUT_POSITION1
  | RPR_MATERIAL_INPUT_POSITION2 | RPR_MATERIAL_INPUT_POSITION_HIGHLIGHT
  | RPR_MATERIAL_INPUT_INTERPOLATION
  | RPR_MATERIAL_INPUT_RANGE_SHADOW | RPR_MATERIAL_INPUT_RANGE1
  | RPR_MATERIAL_INPUT_RANGE2 | RPR_MATERIAL_INPUT_RANGE_HIGHLIGHT
  | RPR_MATERIAL_INPUT_DIFFUSE_RAMP | RPR_MATERIAL_INPUT_ROUGHNESS
  | RPR_MATERIAL_INPUT_NORMAL | RPR_MATERIAL_INPUT_LIGHT

datatype InterpolationMode = RPR_INTERPOLATION_MODE_LINEAR | RPR_INTERPOLATION_MODE_NONE

datatype RampSetting =
    RampValue MaterialInput Value
  | RampInt MaterialInput int
  | RampInterpolation MaterialInput InterpolationMode

datatype ShaderSetting =
    SetValue MaterialInput Value
  | SetRamp MaterialInput "RampSetting list"
  | SetLight MaterialInput nat

text \<open>A \<^verbatim>\<open>frw::Shader\<close>: a shader with the inputs set on it, in the order set, or a blend.\<close>

datatype Shader = Shader ShaderType "ShaderSetting list" | ShaderBlend Shader Shader Value

fun shaderSet :: "ShaderSetting \<Rightarrow> Shader \<Rightarrow> Shader" where
  "shaderSet x (Shader t settings) = Shader t (settings @ [x])"
| "shaderSet x (ShaderBlend a b v) = ShaderBlend a b v"

fun isLightSetting :: "ShaderSetting \<Rightarrow> bool" where
  "isLightSetting (SetLight i l) = True"
| "isLightSetting (SetValue i v) = False"
| "isLightSetting (SetRamp i r) = False"

fun lightLinked :: "Shader \<Rightarrow> bool" where
  "lightLinked (Shader t settings) = list_ex isLightSetting settings"
| "lightLinked (ShaderBlend a b v) = (lightLinked a \<or> lightLinked b)"

fun isBlend :: "Shader \<Rightarrow> bool" where
  "isBlend (Shader t settings) = False"
| "isBlend (ShaderBlend a b v) = True"

text \<open>The plugs of the toon material node, each with the value the scope reads from it.\<close>

record ToonMaterial =
  Attribute_showAdvanced :: bool
  Attribute_showMixLevels :: bool
  Attribute_color :: Value
  Attribute_normal :: Value
  Attribute_roughness :: Value
  Attribute_transparencyEnable :: bool
  Attribute_transparencyLevel :: Value
  Attribute_enable5Colors :: bool
  Attribute_highlightColor :: Value
  Attribute_highlightColor2 :: Value
  Attribute_midColor :: Value
  Attribute_shadowColor :: Value
  Attribute_shadowColor2 :: Value
  Attribute_rampPositionShadow :: Value
  Attribute_rampPosition1 :: Value
  Attribute_rampPosition2 :: Value
  Attribute_rampPositionHighlight :: Value
  Attribute_rampRangeShadow :: Value
  Attribute_rampRange1 :: Value
  Attribute_rampRange2 :: Value
  Attribute_rampRangeHighlight :: Value
  Attribute_enableLightLinking :: bool

datatype RenderType = Undefined | Thumbnail | ProductionRender | IPR | ViewportRender

text \<open>
  What the scope and the host answer to \<^verbatim>\<open>linkLight\<close>: the render type, the node that
  the \<^verbatim>\<open>linkedLight\<close> attribute names (\<open>None\<close> for a null object) and the renderer's
  light of a node (\<open>None\<close> for a null handle).
\<close>

record Scope =
  GetRenderType :: RenderType
  linkedLightNode :: "nat option"
  GetRprLightFromNode :: "nat \<Rightarrow> nat option"

text \<open>The second component collects the messages given to \<^verbatim>\<open>MGlobal::displayError\<close>.\<close>

definition linkLight :: "Scope \<Rightarrow> Shader \<Rightarrow> Shader \<times> string list" where
  "linkLight scope shader =
     (if GetRenderType scope = Thumbnail \<or> GetRenderType scope = Undefined then (shader, [])
      else
        case linkedLightNode scope of
          None \<Rightarrow> (shader, [''Unable to find linked light!\<newline>''])
        | Some light \<Rightarrow>
            (case GetRprLightFromNode scope light of
               None \<Rightarrow> (shader, [''Unable to find linked light!\<newline>''])
             | Some rprLight \<Rightarrow> (shaderSet (SetLight RPR_MATERIAL_INPUT_LIGHT rprLight) shader, [])))"

definition toonRamp :: "ToonMaterial \<Rightarrow> RampSetting list" where
  "toonRamp node =
     [RampInt RPR_MATERIAL_INPUT_TOON_5_COLORS (if Attribute_enable5Colors node then 1 else 0),
      RampValue RPR_MATERIAL_INPUT_HIGHLIGHT2 (Attribute_highlightColor2 node),
      RampValue RPR_MATERIAL_INPUT_HIGHLIGHT (Attribute_highlightColor node),
      RampValue RPR_MATERIAL_INPUT_MID (Attribute_midColor node),
      RampValue RPR_MATERIAL_INPUT_SHADOW (Attribute_shadowColor node),
      RampValue RPR_MATERIAL_INPUT_SHADOW2 (Attribute_shadowColor2 node),
      RampValue RPR_MATERIAL_INPUT_POSITION_SHADOW (Attribute_rampPositionShadow node),
      RampValue RPR_MATERIAL_INPUT_POSITION1 (Attribute_rampPosition1 node),
      RampValue RPR_MATERIAL_INPUT_POSITION2 (Attribute_rampPosition2 node),
      RampValue RPR_MATERIAL_INPUT_POSITION_HIGHLIGHT (Attribute_rampPositionHighlight node)]
     @ (if Attribute_showMixLevels node then
          [RampInterpolation RPR_MATERIAL_INPUT_INTERPOLATION RPR_INTERPOLATION_MODE_LINEAR,
           RampValue RPR_MATERIAL_INPUT_RANGE_SHADOW (Attribute_rampRangeShadow node),
           RampValue RPR_MATERIAL_INPUT_RANGE1 (Attribute_rampRange1 node),
           RampValue RPR_MATERIAL_INPUT_RANGE2 (Attribute_rampRange2 node),
           RampValue RPR_MATERIAL_INPUT_RANGE_HIGHLIGHT (Attribute_rampRangeHighlight node)]
        else [RampInterpolation RPR_MATERIAL_INPUT_INTERPOLATION RPR_INTERPOLATION_MODE_NONE])"

text \<open>The local variable \<^verbatim>\<open>shader\<close> of \<^verbatim>\<open>GetShader\<close> when the transparency plug is tested.\<close>

definition toonShader :: "ToonMaterial \<Rightarrow> Shader" where
  "toonShader node =
     (let shader = Shader ShaderTypeToon [];
          shader = shaderSet (SetValue RPR_MATERIAL_INPUT_COLOR (Attribute_color node)) shader;
          shader = (if Attribute_showAdvanced node
                    then shaderSet (SetRamp RPR_MATERIAL_INPUT_DIFFUSE_RAMP (toonRamp node)) shader
                    else shader);
          shader = shaderSet (SetValue RPR_MATERIAL_INPUT_ROUGHNESS (Attribute_roughness node)) shader;
          normalValue = Attribute_normal node
      in if GetNodeType normalValue = ValueTypeNormalMap
            \<or> GetNodeType normalValue = ValueTypeBumpMap
         then shaderSet (SetValue RPR_MATERIAL_INPUT_NORMAL normalValue) shader
         else shader)"

definition GetShader :: "Scope \<Rightarrow> ToonMaterial \<Rightarrow> Shader \<times> string list" where
  "GetShader scope node =
     (let shader = toonShader node
      in if Attribute_transparencyEnable node then
           (ShaderBlend shader (Shader ShaderTypeTransparent []) (Attribute_transparencyLevel node), [])
         else if Attribute_enableLightLinking node then linkLight scope shader
         else (shader, []))"

section \<open>Concrete viewports and environments\<close>

text \<open>
  An environment in which no renderer call raises and the render thread answers every
  poll, and a viewport at rest at 640 by 480; the examples below vary them.
\<close>

definition env0 :: env where
  "env0 = \<lparr>FRMAYA_GL_MAX_TEXTURE_SIZE = 2048, gExitingMaya = False, isPlaying = True,
           isScrubbing = False, outputTargetSize = (\<lambda>tr. (kSuccess, 4096, 1000)),
           throws = (\<lambda>tr. False), renderedPixels = (\<lambda>tr. [RV_PIXEL 1 0 0 1]),
           acquireTexture = (\<lambda>tr. Some (MTexture 1)),
           textureDescription = (\<lambda>tr. \<lparr>fWidth = 0, fHeight = 0, fDepth = 1, fBytesPerRow = 0,
                                        fBytesPerSlice = 0, fFormat = kR32G32B32A32_FLOAT\<rparr>),
           textureUpdate = (\<lambda>tr. kSuccess), cameraAttributeChanged = (\<lambda>tr. False),
           needsRedraw = (\<lambda>tr. True), keepRenderRunning = (\<lambda>tr. False),
           isFirstIterationAndShadersNOTCached = (\<lambda>tr. False),
           getM3dViewFromModelPanel = (\<lambda>tr. kSuccess), getCamera = (\<lambda>tr. kSuccess),
           cameraPathIsValid = (\<lambda>tr. True), GetStateHash = (\<lambda>tr. 7),
           renderThread = (\<lambda>tr. LoopBodyRuns)\<rparr>"

definition viewport0 :: FireRenderViewport where
  "viewport0 =
     \<lparr>m_context = \<lparr>state = StateRendering, width = 640, height = 480,
                    isGLInteropActive = False, isDirty = False\<rparr>,
      m_isRunning = False, m_useAnimationCache = True, m_pixelsUpdated = False,
      m_panelName = ''modelPanel4'', m_textureChanged = False, m_showDialogNeeded = False,
      m_closeDialogNeeded = False, m_createFailed = False, m_renderingErrors = 0,
      m_error = False, m_texture = None,
      m_textureDesc = \<lparr>fWidth = 0, fHeight = 0, fDepth = 1, fBytesPerRow = 0,
                        fBytesPerSlice = 0, fFormat = kR32G32B32A32_FLOAT\<rparr>,
      m_pixels = [], m_textureCache = Map.empty, threadRunning = True, dialogShown = False,
      trace = []\<rparr>"

definition viewportGL :: FireRenderViewport where
  "viewportGL = viewport0\<lparr>m_context := (m_context viewport0)\<lparr>isGLInteropActive := True\<rparr>,
                          m_pixelsUpdated := True, m_pixels := [RV_PIXEL 0 0 0 1]\<rparr>"

definition viewportCached :: FireRenderViewport where
  "viewportCached =
     viewport0\<lparr>m_textureCache :=
                 [''modelPanel4;7'' \<mapsto> \<lparr>sfWidth = 640, sfHeight = 480, sfData = []\<rparr>]\<rparr>"

definition envThrowing :: env where
  "envThrowing = env0\<lparr>throws := \<lambda>tr. True\<rparr>"

definition viewportThreeErrors :: FireRenderViewport where
  "viewportThreeErrors = viewport0\<lparr>m_renderingErrors := 3, m_isRunning := True\<rparr>"

text \<open>Environments in which only the render call, or only the frame-buffer read, raises.\<close>

fun isRenderCall :: "event list \<Rightarrow> bool" where
  "isRenderCall (CtxRender # tr) = True"
| "isRenderCall tr = False"

fun isReadCall :: "event list \<Rightarrow> bool" where
  "isReadCall (CtxReadFrameBuffer target w h region # tr) = True"
| "isReadCall (CtxResolveAOV # tr) = True"
| "isReadCall tr = False"

definition envRenderRaises :: env where
  "envRenderRaises = env0\<lparr>throws := isRenderCall\<rparr>"

definition envReadRaises :: env where
  "envReadRaises = env0\<lparr>throws := isReadCall\<rparr>"

definition viewportRunningNoWidth :: FireRenderViewport where
  "viewportRunningNoWidth =
     viewport0\<lparr>m_context := (m_context viewport0)\<lparr>width := 0\<rparr>, m_isRunning := True\<rparr>"

definition toonNode0 :: ToonMaterial where
  "toonNode0 =
     \<lparr>Attribute_showAdvanced = True, Attribute_showMixLevels = False,
      Attribute_color = Value (ValueTypeOther 0) 1,
      Attribute_normal = Value ValueTypeNormalMap 2,
      Attribute_roughness = Value (ValueTypeOther 0) 3,
      Attribute_transparencyEnable = True,
      Attribute_transparencyLevel = Value (ValueTypeOther 0) 4,
      Attribute_enable5Colors = False,
      Attribute_highlightColor = Value (ValueTypeOther 0) 5,
      Attribute_highlightColor2 = Value (ValueTypeOther 0) 6,
      Attribute_midColor = Value (ValueTypeOther 0) 7,
      Attribute_shadowColor = Value (ValueTypeOther 0) 8,
      Attribute_shadowColor2 = Value (ValueTypeOther 0) 9,
      Attribute_rampPositionShadow = Value (ValueTypeOther 0) 10,
      Attribute_rampPosition1 = Value (ValueTypeOther 0) 11,
      Attribute_rampPosition2 = Value (ValueTypeOther 0) 12,
      Attribute_rampPositionHighlight = Value (ValueTypeOther 0) 13,
      Attribute_rampRangeShadow = Value (ValueTypeOther 0) 14,
      Attribute_rampRange1 = Value (ValueTypeOther 0) 15,
      Attribute_rampRange2 = Value (ValueTypeOther 0) 16,
      Attribute_rampRangeHighlight = Value (ValueTypeOther 0) 17,
      Attribute_enableLightLinking = True\<rparr>"

definition scope0 :: Scope where
  "scope0 = \<lparr>GetRenderType = ProductionRender, linkedLightNode = Some 21,
             GetRprLightFromNode = (\<lambda>n. Some (100 + n))\<rparr>"







text \<open>
  A stand-in for the host's matrix arithmetic that keeps every operation visible: a
  transformation is its translation, rotation and scale, a matrix is the list of the
  transformations multiplied, in order.
\<close>

definition mayaSymbolic ::
  "((MVector \<times> MVector \<times> MVector) list, MVector \<times> MVector \<times> MVector) MayaMath" where
  "mayaSymbolic =
     \<lparr>identityTransformation = ((0, 0, 0), (0, 0, 0), (1, 1, 1)),
      setScale = (\<lambda>v space (t, r, s). (t, r, v)),
      setRotation = (\<lambda>v order (t, r, s). (t, v, s)),
      setTranslation = (\<lambda>v space (t, r, s). (v, r, s)),
      asMatrix = (\<lambda>t. [t]),
      matrixMult = (\<lambda>a b. a @ b),
      deg2rad = (\<lambda>d. d * pi / 180)\<rparr>"

definition scene0 :: "(MVector \<times> MVector \<times> MVector) MASHScene" where
  "scene0 =
     \<lparr>instanceCount = 2, targetObjects = [5],
      targetParentTransformation =
        (\<lambda>obj. if obj = 5 then Some ((1, 2, 3), (0, 0, 0), (1, 1, 1)) else None),
      instancerTransformation = ((10, 0, 0), (0, 0, 0), (1, 1, 1)),
      positionData = [(0, 0, 0), (4, 0, 0)],
      rotationData = [(0, 0, 0), (90, 0, 0)],
      scaleData = [(1, 1, 1), (2, 2, 2)]\<rparr>"

definition movedParent0 :: "nat \<Rightarrow> (MVector \<times> MVector \<times> MVector) option" where
  "movedParent0 obj = (if obj = 5 then Some ((7, 8, 9), (0, 0, 0), (1, 1, 1)) else None)"

definition instancer0 :: "(MVector \<times> MVector \<times> MVector) list InstancerMASH" where
  "instancer0 = \<lparr>m_instancedObjects = [], m_instancedObjectsCachedSize = 0\<rparr>"

section \<open>Properties\<close>

subsection \<open>Viewport size clamping\<close>

lemma clamp_le:
  fixes a b c :: u32
  assumes "a \<le> b" "0 < b"
  shows "a * c div b \<le> c"
proof -
  have "unat (a * c) \<le> unat a * unat c"
    by (simp add: unat_word_ariths)
  then have "unat (a * c) div unat b \<le> unat a * unat c div unat b"
    by (rule div_le_mono)
  also have "\<dots> \<le> unat b * unat c div unat b"
    using assms by (intro div_le_mono mult_le_mono1) (simp add: word_le_nat_alt)
  also have "\<dots> = unat c"
    using assms by (simp add: word_less_nat_alt)
  finally show ?thesis
    by (simp add: word_le_nat_alt unat_div)
qed

lemma clamp_exact:
  fixes a b c :: u32
  assumes "unat a * unat c < 2 ^ 32"
  shows "unat (a * c div b) = unat a * unat c div unat b"
  using assms by (simp add: unat_div unat_word_ariths)

text \<open>
  C8: whatever width and height the renderer reports (with a success status), the pair
  that \<open>getSize\<close> returns has both dimensions at most \<open>FRMAYA_GL_MAX_TEXTURE_SIZE\<close>.
  If the width is the larger dimension and exceeds the limit, the width becomes the limit
  and the height becomes \<open>height * limit / width\<close>; otherwise, if the height exceeds the
  limit, the height becomes the limit and the width becomes \<open>width * limit / height\<close>; a
  pair within the limit is returned unchanged.  The product and quotient are those of
  \<^verbatim>\<open>unsigned int\<close>, and they are the mathematical ones whenever the product stays below
  \<open>2 ^ 32\<close>.
\<close>

theorem getSize_clamps:
  assumes "outputTargetSize E tr = (kSuccess, w, h)"
  shows "\<exists>w' h'. getSize E tr = (kSuccess, w', h')
           \<and> w' \<le> FRMAYA_GL_MAX_TEXTURE_SIZE E \<and> h' \<le> FRMAYA_GL_MAX_TEXTURE_SIZE E
           \<and> (h < w \<and> FRMAYA_GL_MAX_TEXTURE_SIZE E < w \<longrightarrow>
                w' = FRMAYA_GL_MAX_TEXTURE_SIZE E \<and> h' = h * FRMAYA_GL_MAX_TEXTURE_SIZE E div w
                \<and> (unat h * unat (FRMAYA_GL_MAX_TEXTURE_SIZE E) < 2 ^ 32 \<longrightarrow>
                     unat h' = unat h * unat (FRMAYA_GL_MAX_TEXTURE_SIZE E) div unat w))
           \<and> (\<not> (h < w \<and> FRMAYA_GL_MAX_TEXTURE_SIZE E < w) \<and> FRMAYA_GL_MAX_TEXTURE_SIZE E < h \<longrightarrow>
                h' = FRMAYA_GL_MAX_TEXTURE_SIZE E \<and> w' = w * FRMAYA_GL_MAX_TEXTURE_SIZE E div h
                \<and> (unat w * unat (FRMAYA_GL_MAX_TEXTURE_SIZE E) < 2 ^ 32 \<longrightarrow>
                     unat w' = unat w * unat (FRMAYA_GL_MAX_TEXTURE_SIZE E) div unat h))
           \<and> (w \<le> FRMAYA_GL_MAX_TEXTURE_SIZE E \<and> h \<le> FRMAYA_GL_MAX_TEXTURE_SIZE E \<longrightarrow>
                w' = w \<and> h' = h)"
proof -
  let ?L = "FRMAYA_GL_MAX_TEXTURE_SIZE E"
  consider (wide) "h < w \<and> ?L < w" | (tall) "\<not> (h < w \<and> ?L < w)" "?L < h"
    | (fits) "\<not> (h < w \<and> ?L < w)" "\<not> ?L < h" by blast
  then show ?thesis
  proof cases
    case wide
    then have "h * ?L div w \<le> ?L"
      by (intro clamp_le) (auto simp: word_less_nat_alt word_le_nat_alt)
    moreover from wide have "\<not> w \<le> ?L" by (auto simp: not_le)
    ultimately show ?thesis
      using wide assms by (simp add: getSize_def clamp_exact)
  next
    case tall
    then have wh: "w \<le> h" by (auto simp: word_less_nat_alt word_le_nat_alt)
    then have "w * ?L div h \<le> ?L"
      using tall by (intro clamp_le) (auto simp: word_less_nat_alt word_le_nat_alt)
    moreover from tall have "\<not> h \<le> ?L" by (auto simp: not_le)
    moreover from wh have "\<not> h < w" by (simp add: not_less)
    ultimately show ?thesis
      using tall(2) assms by (simp add: getSize_def clamp_exact)
  next
    case fits
    then have "w \<le> ?L" "h \<le> ?L" "\<not> ?L < w"
      by (auto simp: word_less_nat_alt word_le_nat_alt)
    with fits(2) assms show ?thesis
      by (simp add: getSize_def)
  qed
qed

theorem getSize_clamps_witness:
  "outputTargetSize env0 [] = (kSuccess, 4096, 1000)
   \<and> getSize env0 [] = (kSuccess, 2048, 500)
   \<and> outputTargetSize (env0\<lparr>outputTargetSize := \<lambda>tr. (kSuccess, 1000, 4096)\<rparr>) []
       = (kSuccess, 1000, 4096)
   \<and> getSize (env0\<lparr>outputTargetSize := \<lambda>tr. (kSuccess, 1000, 4096)\<rparr>) [] = (kSuccess, 500, 2048)
   \<and> outputTargetSize (env0\<lparr>outputTargetSize := \<lambda>tr. (kSuccess, 800, 600)\<rparr>) []
       = (kSuccess, 800, 600)
   \<and> getSize (env0\<lparr>outputTargetSize := \<lambda>tr. (kSuccess, 800, 600)\<rparr>) [] = (kSuccess, 800, 600)"
  using getSize_clamps [of env0 "[]" 4096 1000]
        getSize_clamps [of "env0\<lparr>outputTargetSize := \<lambda>tr. (kSuccess, 1000, 4096)\<rparr>" "[]" 1000 4096]
        getSize_clamps [of "env0\<lparr>outputTargetSize := \<lambda>tr. (kSuccess, 800, 600)\<rparr>" "[]" 800 600]
  by (simp add: env0_def getSize_def)

subsection \<open>The texture-changed flag\<close>

lemma updateTexture_existing:
  "m_texture s = Some t \<Longrightarrow>
     updateTexture E d w h s = (textureUpdate E (TexUpdate t d # trace s), emit (TexUpdate t d) s)"
  by (simp add: updateTexture_def emit_def)

lemma updateTexture_create_flag:
  "m_texture s = None \<Longrightarrow>
     fst (updateTexture E d w h s) = kSuccess \<and> m_textureChanged (snd (updateTexture E d w h s))"
  by (simp add: updateTexture_def Let_def split: option.splits)

lemma fold_updateTexture_existing:
  "m_texture s \<noteq> None \<Longrightarrow>
     m_texture (fold (\<lambda>(d, w, h) s'. snd (updateTexture E d w h s')) us s) = m_texture s
     \<and> m_textureChanged (fold (\<lambda>(d, w, h) s'. snd (updateTexture E d w h s')) us s)
         = m_textureChanged s"
proof (induction us arbitrary: s)
  case Nil
  then show ?case by simp
next
  case (Cons u us)
  obtain d w h where u: "u = (d, w, h)" by (cases u)
  from Cons.prems obtain t where t: "m_texture s = Some t" by auto
  let ?s1 = "snd (updateTexture E d w h s)"
  have s1: "m_texture ?s1 = m_texture s" "m_textureChanged ?s1 = m_textureChanged s"
    using t by (simp_all add: updateTexture_existing emit_def)
  with Cons.prems have "m_texture ?s1 \<noteq> None" by simp
  from Cons.IH [OF this] s1 show ?case by (simp add: u)
qed

text \<open>
  C9: \<open>hasTextureChanged\<close> returns the texture-changed flag and clears it, so a second
  call right after the first returns false, and so does a second call after any number of
  \<open>updateTexture\<close> calls that found a texture in place.  \<open>updateTexture\<close> leaves the flag
  as it is when it updates an existing texture and raises it when it creates one.
\<close>

theorem hasTextureChanged_resets_flag:
  "fst (hasTextureChanged s) = m_textureChanged s
   \<and> m_textureChanged (snd (hasTextureChanged s)) = False
   \<and> fst (hasTextureChanged (snd (hasTextureChanged s))) = False
   \<and> (m_texture s \<noteq> None \<longrightarrow>
        m_textureChanged (snd (updateTexture E d w h s)) = m_textureChanged s
        \<and> fst (hasTextureChanged
                 (fold (\<lambda>(d, w, h) s'. snd (updateTexture E d w h s')) us
                    (snd (hasTextureChanged s)))) = False)
   \<and> (m_texture s = None \<longrightarrow> m_textureChanged (snd (updateTexture E d w h s)) = True)"
proof -
  have "m_texture s \<noteq> None \<Longrightarrow>
          m_textureChanged (fold (\<lambda>(d, w, h) s'. snd (updateTexture E d w h s')) us
                              (snd (hasTextureChanged s))) = False"
    using fold_updateTexture_existing [of "snd (hasTextureChanged s)" E us]
    by (simp add: hasTextureChanged_def)
  moreover have "m_texture s \<noteq> None \<Longrightarrow>
          m_textureChanged (snd (updateTexture E d w h s)) = m_textureChanged s"
    by (auto simp: updateTexture_existing emit_def)
  ultimately show ?thesis
    using updateTexture_create_flag [of s E d w h]
    by (simp add: hasTextureChanged_def)
qed

theorem hasTextureChanged_resets_flag_witness:
  "m_texture (viewport0\<lparr>m_texture := Some (MTexture 1), m_textureChanged := True\<rparr>) \<noteq> None
   \<and> fst (hasTextureChanged (viewport0\<lparr>m_texture := Some (MTexture 1), m_textureChanged := True\<rparr>))
   \<and> \<not> fst (hasTextureChanged
               (fold (\<lambda>(d, w, h) s'. snd (updateTexture env0 d w h s')) [([], 1, 1), ([], 2, 2)]
                  (snd (hasTextureChanged
                          (viewport0\<lparr>m_texture := Some (MTexture 1), m_textureChanged := True\<rparr>)))))
   \<and> m_texture viewport0 = None
   \<and> m_textureChanged (snd (updateTexture env0 [] 1 1 viewport0))"
  using hasTextureChanged_resets_flag
          [of "viewport0\<lparr>m_texture := Some (MTexture 1), m_textureChanged := True\<rparr>" env0 "[]" 1 1
              "[([], 1, 1), ([], 2, 2)]"]
        hasTextureChanged_resets_flag [of viewport0 env0 "[]" 1 1 "[]"]
  by (simp add: viewport0_def)

subsection \<open>Clean-up\<close>

text \<open>
  C7: \<open>cleanUp\<close> always cleans the scene first.  It then releases the texture through the
  texture manager and clears the texture pointer exactly when a texture exists and the
  host is not exiting; in every other case it does nothing more, and in particular when
  the host is exiting the only effect is the scene clean-up and the texture field keeps
  its value.
\<close>

theorem cleanUp_releases_texture:
  "(\<exists>new. trace (cleanUp E s) = new @ CtxCleanScene # trace s
          \<and> ((\<exists>t. m_texture s = Some t \<and> new = [TexRelease t] \<and> m_texture (cleanUp E s) = None)
               \<longleftrightarrow> (m_texture s \<noteq> None \<and> \<not> gExitingMaya E))
          \<and> (\<not> (m_texture s \<noteq> None \<and> \<not> gExitingMaya E) \<longrightarrow>
                new = [] \<and> m_texture (cleanUp E s) = m_texture s))
   \<and> (gExitingMaya E \<longrightarrow> cleanUp E s = emit CtxCleanScene s)"
  by (cases "m_texture s") (auto simp: cleanUp_def emit_def Let_def)

theorem cleanUp_releases_texture_witness:
  "\<not> gExitingMaya env0
   \<and> trace (cleanUp env0 (viewport0\<lparr>m_texture := Some (MTexture 1)\<rparr>))
       = [TexRelease (MTexture 1), CtxCleanScene]
   \<and> m_texture (cleanUp env0 (viewport0\<lparr>m_texture := Some (MTexture 1)\<rparr>)) = None
   \<and> gExitingMaya (env0\<lparr>gExitingMaya := True\<rparr>)
   \<and> cleanUp (env0\<lparr>gExitingMaya := True\<rparr>) (viewport0\<lparr>m_texture := Some (MTexture 1)\<rparr>)
       = emit CtxCleanScene (viewport0\<lparr>m_texture := Some (MTexture 1)\<rparr>)"
  using cleanUp_releases_texture [of env0 "viewport0\<lparr>m_texture := Some (MTexture 1)\<rparr>"]
        cleanUp_releases_texture
          [of "env0\<lparr>gExitingMaya := True\<rparr>" "viewport0\<lparr>m_texture := Some (MTexture 1)\<rparr>"]
  by (simp add: env0_def viewport0_def)

subsection \<open>Frame-buffer readback\<close>

lemma readFrameBuffer_gl:
  "isGLInteropActive (m_context s) \<Longrightarrow>
     readFrameBuffer E f s = (throws E (CtxResolveAOV # trace s), emit CtxResolveAOV s)"
  by (simp add: readFrameBuffer_def call_def)

lemma readFrameBuffer_trace:
  "trace (snd (readFrameBuffer E f s)) =
     (if isGLInteropActive (m_context s) then CtxResolveAOV
      else CtxReadFrameBuffer (case f of None \<Rightarrow> ToPixels | Some k \<Rightarrow> ToStoredFrame k)
             (width (m_context s)) (height (m_context s))
             (RenderRegion 0 (width (m_context s) - 1) 0 (height (m_context s) - 1)))
     # trace s"
  by (simp add: readFrameBuffer_def call_def emit_def Let_def split_def split: option.splits)


text \<open>
  C3: when GL interop is active, the pixel-copy step of \<open>setup\<close> does nothing, whatever
  the value of \<open>m_pixelsUpdated\<close>, so \<open>setup\<close> is \<open>doSetup\<close> alone; and
  \<open>readFrameBuffer\<close> only asks the context to resolve the colour AOV: apart from that
  call the viewport is unchanged, \<open>m_pixels\<close> and \<open>m_pixelsUpdated\<close> included.
\<close>

theorem gl_interop_skips_pixel_copy:
  assumes "isGLInteropActive (m_context s)"
  shows "setupCopyPixels E s = s
         \<and> setupCopyPixels E (s\<lparr>m_pixelsUpdated := b\<rparr>) = s\<lparr>m_pixelsUpdated := b\<rparr>
         \<and> setupViewport E n s = doSetup E n s
         \<and> setupViewport E n (s\<lparr>m_pixelsUpdated := b\<rparr>) = doSetup E n (s\<lparr>m_pixelsUpdated := b\<rparr>)
         \<and> snd (readFrameBuffer E f s) = s\<lparr>trace := CtxResolveAOV # trace s\<rparr>
         \<and> m_pixels (snd (readFrameBuffer E f s)) = m_pixels s
         \<and> m_pixelsUpdated (snd (readFrameBuffer E f s)) = m_pixelsUpdated s"
  using assms by (simp add: setupCopyPixels_def setupViewport_def readFrameBuffer_gl emit_def)

theorem gl_interop_skips_pixel_copy_witness:
  "isGLInteropActive (m_context viewportGL) \<and> m_pixelsUpdated viewportGL
   \<and> setupCopyPixels env0 viewportGL = viewportGL
   \<and> trace (snd (readFrameBuffer env0 None viewportGL)) = [CtxResolveAOV]
   \<and> m_pixels (snd (readFrameBuffer env0 None viewportGL)) = [RV_PIXEL 0 0 0 1]
   \<and> m_pixelsUpdated (snd (readFrameBuffer env0 None viewportGL))"
  using gl_interop_skips_pixel_copy [of viewportGL env0 True 0 None]
  by (simp add: viewportGL_def viewport0_def)

text \<open>
  C4: when GL interop is inactive, \<open>readFrameBuffer\<close> without a stored frame asks the
  context to read the colour AOV into \<open>m_pixels\<close> over the region from \<open>(0, 0)\<close> to
  \<open>(width - 1, height - 1)\<close> of the context, and when the read returns, \<open>m_pixels\<close> holds
  the pixels read and \<open>m_pixelsUpdated\<close> is true.  With a stored frame the same read is
  directed at the frame, whose data then holds the pixels, and \<open>m_pixels\<close> and
  \<open>m_pixelsUpdated\<close> keep their values.
\<close>

theorem readFrameBuffer_standard:
  assumes "\<not> isGLInteropActive (m_context s)"
  shows "(\<exists>threw s'. readFrameBuffer E None s = (threw, s')
            \<and> trace s' = CtxReadFrameBuffer ToPixels (width (m_context s)) (height (m_context s))
                            (RenderRegion 0 (width (m_context s) - 1) 0 (height (m_context s) - 1))
                          # trace s
            \<and> threw = throws E (trace s')
            \<and> (\<not> threw \<longrightarrow> m_pixels s' = renderedPixels E (trace s') \<and> m_pixelsUpdated s' = True))
         \<and> (\<exists>threw s'. readFrameBuffer E (Some key) s = (threw, s')
            \<and> trace s' = CtxReadFrameBuffer (ToStoredFrame key) (width (m_context s))
                            (height (m_context s))
                            (RenderRegion 0 (width (m_context s) - 1) 0 (height (m_context s) - 1))
                          # trace s
            \<and> threw = throws E (trace s')
            \<and> m_pixelsUpdated s' = m_pixelsUpdated s \<and> m_pixels s' = m_pixels s
            \<and> (\<forall>frame. \<not> threw \<and> m_textureCache s key = Some frame \<longrightarrow>
                  m_textureCache s' key = Some (frame\<lparr>sfData := renderedPixels E (trace s')\<rparr>)))"
  using assms
  by (auto simp: readFrameBuffer_def call_def emit_def Let_def split: option.splits)

theorem readFrameBuffer_standard_witness:
  "\<not> isGLInteropActive (m_context viewportCached)
   \<and> readFrameBuffer env0 None viewportCached
       = (False, viewportCached\<lparr>m_pixels := [RV_PIXEL 1 0 0 1], m_pixelsUpdated := True,
             trace := [CtxReadFrameBuffer ToPixels 640 480 (RenderRegion 0 639 0 479)]\<rparr>)
   \<and> m_textureCache viewportCached ''modelPanel4;7''
       = Some \<lparr>sfWidth = 640, sfHeight = 480, sfData = []\<rparr>
   \<and> m_textureCache (snd (readFrameBuffer env0 (Some ''modelPanel4;7'') viewportCached))
        ''modelPanel4;7''
       = Some \<lparr>sfWidth = 640, sfHeight = 480, sfData = [RV_PIXEL 1 0 0 1]\<rparr>
   \<and> \<not> m_pixelsUpdated (snd (readFrameBuffer env0 (Some ''modelPanel4;7'') viewportCached))"
  using readFrameBuffer_standard [of viewportCached env0 "''modelPanel4;7''"]
  by (simp add: viewportCached_def viewport0_def env0_def readFrameBuffer_def call_def emit_def)

subsection \<open>One step of the render loop\<close>

lemma tryRenderIteration_cases:
  "fst (tryRenderIteration E s) \<longleftrightarrow>
     throws E (CtxLock ''FireRenderContext::StateRendering'' # trace s)
     \<or> throws E (CtxRender # CtxLock ''FireRenderContext::StateRendering'' # trace s)
     \<or> throws E (readEvent s # CtxRender # CtxLock ''FireRenderContext::StateRendering'' # trace s)"
  "trace (snd (tryRenderIteration E s)) =
     (if throws E (CtxLock ''FireRenderContext::StateRendering'' # trace s)
      then [CtxLock ''FireRenderContext::StateRendering'']
      else if throws E (CtxRender # CtxLock ''FireRenderContext::StateRendering'' # trace s)
      then [CtxRender, CtxLock ''FireRenderContext::StateRendering'']
      else [readEvent s, CtxRender, CtxLock ''FireRenderContext::StateRendering'']) @ trace s"
  "m_renderingErrors (snd (tryRenderIteration E s)) =
     (if fst (tryRenderIteration E s) then m_renderingErrors s
      else if 0 < m_renderingErrors s then m_renderingErrors s - 1 else m_renderingErrors s)"
  "m_isRunning (snd (tryRenderIteration E s)) = m_isRunning s"
  by (auto simp: tryRenderIteration_def call_def emit_def Let_def split_def readEvent_def
        readFrameBuffer_def split: if_splits)

lemma RunOnViewportThread_rendering:
  assumes "state (m_context s) = StateRendering" "renderRequired E s"
  shows "RunOnViewportThread E s =
           (if fst (tryRenderIteration E s) then
              if 3 \<le> m_renderingErrors s
              then (Throws, (emit ScheduleRefresh (snd (tryRenderIteration E s)))
                              \<lparr>m_renderingErrors := m_renderingErrors s + 1\<rparr>)
              else (Returns True,
                    emit ScheduleRefresh
                      ((emit ScheduleRefresh (snd (tryRenderIteration E s)))
                         \<lparr>m_renderingErrors := m_renderingErrors s + 1\<rparr>))
            else (Returns True, emit ScheduleRefresh (snd (tryRenderIteration E s))))"
  using assms tryRenderIteration_cases(3) [of E s]
  by (auto simp: RunOnViewportThread_def Let_def split_def emit_def)

lemma RunOnViewportThread_idle:
  assumes "\<not> (state (m_context s) = StateRendering \<and> renderRequired E s)"
  shows "fst (RunOnViewportThread E s) = Returns (state (m_context s) \<noteq> StateExiting)"
    and "\<exists>new. trace (snd (RunOnViewportThread E s)) = new @ trace s \<and> CtxRender \<notin> set new"
  using assms
  by (cases "state (m_context s)"; simp add: RunOnViewportThread_def emit_def)+

text \<open>
  C2, as the code has it: one step of the render loop returns false exactly when the
  context state is \<open>StateExiting\<close>.  In every other state it returns true, with one
  exception: in \<open>StateRendering\<close> with a render required, when taking the context lock,
  the render iteration or the frame-buffer read raises and three errors were already
  counted, the step re-raises the exception instead of returning; the loop body that
  wraps the step then clears \<open>m_isRunning\<close> and stores the error, so the loop ends.  The
  loop body keeps \<open>m_isRunning\<close> true exactly when the step returned true.  A render
  iteration happens only in \<open>StateRendering\<close> with a render required (camera attribute
  changed, redraw needed, or render not yet complete); it is followed by the frame-buffer
  read unless the render itself raises, and the calls made are the lock, then the render,
  then the read, each only if the one before returned.  A step that raised counts one
  error more, and a step that completed counts one error less when any was counted.
\<close>

theorem RunOnViewportThread_step:
  "(fst (RunOnViewportThread E s) = Returns False \<longleftrightarrow> state (m_context s) = StateExiting)
   \<and> (fst (RunOnViewportThread E s) = Throws \<longleftrightarrow>
        state (m_context s) = StateRendering \<and> renderRequired E s \<and> 3 \<le> m_renderingErrors s
        \<and> (throws E (CtxLock ''FireRenderContext::StateRendering'' # trace s)
            \<or> throws E (CtxRender # CtxLock ''FireRenderContext::StateRendering'' # trace s)
            \<or> throws E (readEvent s # CtxRender
                           # CtxLock ''FireRenderContext::StateRendering'' # trace s)))
   \<and> (state (m_context s) \<noteq> StateExiting \<and> fst (RunOnViewportThread E s) \<noteq> Throws \<longrightarrow>
        fst (RunOnViewportThread E s) = Returns True)
   \<and> (m_isRunning (renderLoopBody E s) \<longleftrightarrow> fst (RunOnViewportThread E s) = Returns True)
   \<and> (fst (RunOnViewportThread E s) = Throws \<longrightarrow>
        \<not> m_isRunning (renderLoopBody E s) \<and> m_error (renderLoopBody E s))
   \<and> (\<exists>new. trace (snd (RunOnViewportThread E s)) = new @ trace s
          \<and> (CtxRender \<in> set new \<longrightarrow> state (m_context s) = StateRendering \<and> renderRequired E s))
   \<and> (state (m_context s) = StateRendering \<and> renderRequired E s \<longrightarrow>
        (\<exists>refreshes.
           trace (snd (RunOnViewportThread E s)) =
             refreshes
             @ (if throws E (CtxLock ''FireRenderContext::StateRendering'' # trace s)
                then [CtxLock ''FireRenderContext::StateRendering'']
                else if throws E (CtxRender # CtxLock ''FireRenderContext::StateRendering''
                                    # trace s)
                then [CtxRender, CtxLock ''FireRenderContext::StateRendering'']
                else [readEvent s, CtxRender, CtxLock ''FireRenderContext::StateRendering''])
             @ trace s
           \<and> refreshes =
               (if fst (RunOnViewportThread E s) = Throws then [ScheduleRefresh]
                else if throws E (CtxLock ''FireRenderContext::StateRendering'' # trace s)
                        \<or> throws E (CtxRender # CtxLock ''FireRenderContext::StateRendering''
                                       # trace s)
                        \<or> throws E (readEvent s # CtxRender
                                       # CtxLock ''FireRenderContext::StateRendering'' # trace s)
                then [ScheduleRefresh, ScheduleRefresh] else [ScheduleRefresh]))
        \<and> m_renderingErrors (snd (RunOnViewportThread E s)) =
            (if throws E (CtxLock ''FireRenderContext::StateRendering'' # trace s)
                \<or> throws E (CtxRender # CtxLock ''FireRenderContext::StateRendering'' # trace s)
                \<or> throws E (readEvent s # CtxRender
                               # CtxLock ''FireRenderContext::StateRendering'' # trace s)
             then m_renderingErrors s + 1
             else if 0 < m_renderingErrors s then m_renderingErrors s - 1
             else m_renderingErrors s))"
proof (cases "state (m_context s) = StateRendering \<and> renderRequired E s")
  case True
  note run = RunOnViewportThread_rendering [of s E]
  note it = tryRenderIteration_cases [of E s]
  let ?raised = "throws E (CtxLock ''FireRenderContext::StateRendering'' # trace s)
     \<or> throws E (CtxRender # CtxLock ''FireRenderContext::StateRendering'' # trace s)
     \<or> throws E (readEvent s # CtxRender # CtxLock ''FireRenderContext::StateRendering'' # trace s)"
  show ?thesis
  proof (cases ?raised)
    case raised: True
    then have threw: "fst (tryRenderIteration E s)" by (simp add: it(1))
    show ?thesis
    proof (cases "3 \<le> m_renderingErrors s")
      case limit: True
      with True threw have r: "RunOnViewportThread E s =
          (Throws, (emit ScheduleRefresh (snd (tryRenderIteration E s)))
                     \<lparr>m_renderingErrors := m_renderingErrors s + 1\<rparr>)"
        by (simp add: run)
      from True raised limit show ?thesis
        by (simp add: r renderLoopBody_def emit_def it(2))
    next
      case below: False
      with True threw have r: "RunOnViewportThread E s =
          (Returns True,
           emit ScheduleRefresh
             ((emit ScheduleRefresh (snd (tryRenderIteration E s)))
                \<lparr>m_renderingErrors := m_renderingErrors s + 1\<rparr>))"
        by (simp add: run)
      from True raised below show ?thesis
        by (simp add: r renderLoopBody_def emit_def it(2))
    qed
  next
    case quiet: False
    then have completed: "\<not> fst (tryRenderIteration E s)" by (simp add: it(1))
    with True have r: "RunOnViewportThread E s =
        (Returns True, emit ScheduleRefresh (snd (tryRenderIteration E s)))"
      by (simp add: run)
    from True quiet completed show ?thesis
      by (simp add: r renderLoopBody_def emit_def it(2) it(3))
  qed
next
  case False
  from RunOnViewportThread_idle [OF False] obtain new where
    ret: "fst (RunOnViewportThread E s) = Returns (state (m_context s) \<noteq> StateExiting)"
    and new: "trace (snd (RunOnViewportThread E s)) = new @ trace s" "CtxRender \<notin> set new"
    by blast
  have body: "m_isRunning (renderLoopBody E s) \<longleftrightarrow> state (m_context s) \<noteq> StateExiting"
    using ret by (cases "RunOnViewportThread E s") (simp add: renderLoopBody_def)
  from new have "\<exists>new. trace (snd (RunOnViewportThread E s)) = new @ trace s
          \<and> (CtxRender \<in> set new \<longrightarrow> state (m_context s) = StateRendering \<and> renderRequired E s)"
    by blast
  with False ret body show ?thesis by auto
qed

theorem RunOnViewportThread_step_witness:
  "state (m_context viewport0) = StateRendering \<and> renderRequired env0 viewport0
   \<and> fst (RunOnViewportThread env0 viewport0) = Returns True
   \<and> trace (snd (RunOnViewportThread env0 viewport0)) =
        [ScheduleRefresh, CtxReadFrameBuffer ToPixels 640 480 (RenderRegion 0 639 0 479),
         CtxRender, CtxLock ''FireRenderContext::StateRendering'']
   \<and> state (m_context viewportThreeErrors) = StateRendering
   \<and> 3 \<le> m_renderingErrors viewportThreeErrors
   \<and> renderRequired envRenderRaises viewportThreeErrors
   \<and> \<not> throws envRenderRaises
          (CtxLock ''FireRenderContext::StateRendering'' # trace viewportThreeErrors)
   \<and> throws envRenderRaises
        (CtxRender # CtxLock ''FireRenderContext::StateRendering'' # trace viewportThreeErrors)
   \<and> fst (RunOnViewportThread envRenderRaises viewportThreeErrors) = Throws
   \<and> \<not> m_isRunning (renderLoopBody envRenderRaises viewportThreeErrors)
   \<and> trace (snd (RunOnViewportThread envRenderRaises viewportThreeErrors)) =
        [ScheduleRefresh, CtxRender, CtxLock ''FireRenderContext::StateRendering'']
   \<and> renderRequired envReadRaises viewportThreeErrors
   \<and> \<not> throws envReadRaises
          (CtxRender # CtxLock ''FireRenderContext::StateRendering'' # trace viewportThreeErrors)
   \<and> throws envReadRaises
        (readEvent viewportThreeErrors # CtxRender
           # CtxLock ''FireRenderContext::StateRendering'' # trace viewportThreeErrors)
   \<and> fst (RunOnViewportThread envReadRaises viewportThreeErrors) = Throws
   \<and> \<not> m_isRunning (renderLoopBody envReadRaises viewportThreeErrors)
   \<and> trace (snd (RunOnViewportThread envReadRaises viewportThreeErrors)) =
        [ScheduleRefresh, CtxReadFrameBuffer ToPixels 640 480 (RenderRegion 0 639 0 479),
         CtxRender, CtxLock ''FireRenderContext::StateRendering'']
   \<and> fst (RunOnViewportThread envThrowing viewportThreeErrors) = Throws
   \<and> fst (RunOnViewportThread env0
             (viewport0\<lparr>m_context := (m_context viewport0)\<lparr>state := StateExiting\<rparr>\<rparr>))
       = Returns False"
proof -
  let ?lock = "CtxLock ''FireRenderContext::StateRendering''"
  let ?read = "CtxReadFrameBuffer ToPixels 640 480 (RenderRegion 0 639 0 479)"
  let ?exiting = "viewport0\<lparr>m_context := (m_context viewport0)\<lparr>state := StateExiting\<rparr>\<rparr>"
  note inputs = env0_def envThrowing_def envRenderRaises_def envReadRaises_def viewport0_def
    viewportThreeErrors_def renderRequired_def readEvent_def
  have quiet: "state (m_context viewport0) = StateRendering" "renderRequired env0 viewport0"
    "\<not> throws env0 (?lock # trace viewport0)" "\<not> throws env0 (CtxRender # ?lock # trace viewport0)"
    "\<not> throws env0 (readEvent viewport0 # CtxRender # ?lock # trace viewport0)"
    "readEvent viewport0 = ?read" "trace viewport0 = []"
    by (simp_all add: inputs)
  from RunOnViewportThread_step [of env0 viewport0] quiet(1-5)
  have q1: "fst (RunOnViewportThread env0 viewport0) \<noteq> Throws"
    and q2: "fst (RunOnViewportThread env0 viewport0) \<noteq> Returns False"
    by simp_all
  then have q3: "fst (RunOnViewportThread env0 viewport0) = Returns True"
    by (cases "fst (RunOnViewportThread env0 viewport0)") auto
  from RunOnViewportThread_step [of env0 viewport0] quiet q1
  have q4: "trace (snd (RunOnViewportThread env0 viewport0)) = [ScheduleRefresh, ?read, CtxRender, ?lock]"
    by simp
  have three: "state (m_context viewportThreeErrors) = StateRendering"
    "3 \<le> m_renderingErrors viewportThreeErrors" "trace viewportThreeErrors = []"
    "readEvent viewportThreeErrors = ?read"
    by (simp_all add: inputs)
  have render: "renderRequired envRenderRaises viewportThreeErrors"
    "\<not> throws envRenderRaises (?lock # trace viewportThreeErrors)"
    "throws envRenderRaises (CtxRender # ?lock # trace viewportThreeErrors)"
    by (simp_all add: inputs)
  from RunOnViewportThread_step [of envRenderRaises viewportThreeErrors] three(1,2) render
  have r1: "fst (RunOnViewportThread envRenderRaises viewportThreeErrors) = Throws"
    by simp
  with RunOnViewportThread_step [of envRenderRaises viewportThreeErrors]
  have r2: "\<not> m_isRunning (renderLoopBody envRenderRaises viewportThreeErrors)"
    by simp
  from RunOnViewportThread_step [of envRenderRaises viewportThreeErrors] three render r1
  have r3: "trace (snd (RunOnViewportThread envRenderRaises viewportThreeErrors))
              = [ScheduleRefresh, CtxRender, ?lock]"
    by simp
  have reading: "renderRequired envReadRaises viewportThreeErrors"
    "\<not> throws envReadRaises (?lock # trace viewportThreeErrors)"
    "\<not> throws envReadRaises (CtxRender # ?lock # trace viewportThreeErrors)"
    "throws envReadRaises (readEvent viewportThreeErrors # CtxRender # ?lock
                             # trace viewportThreeErrors)"
    by (simp_all add: inputs)
  from RunOnViewportThread_step [of envReadRaises viewportThreeErrors] three(1,2) reading
  have f1: "fst (RunOnViewportThread envReadRaises viewportThreeErrors) = Throws"
    by simp
  with RunOnViewportThread_step [of envReadRaises viewportThreeErrors]
  have f2: "\<not> m_isRunning (renderLoopBody envReadRaises viewportThreeErrors)"
    by simp
  from RunOnViewportThread_step [of envReadRaises viewportThreeErrors] three reading f1
  have f3: "trace (snd (RunOnViewportThread envReadRaises viewportThreeErrors))
              = [ScheduleRefresh, ?read, CtxRender, ?lock]"
    by simp
  have locking: "renderRequired envThrowing viewportThreeErrors"
    "throws envThrowing (?lock # trace viewportThreeErrors)"
    by (simp_all add: inputs)
  from RunOnViewportThread_step [of envThrowing viewportThreeErrors] three(1,2) locking
  have l1: "fst (RunOnViewportThread envThrowing viewportThreeErrors) = Throws"
    by simp
  have "state (m_context ?exiting) = StateExiting" by simp
  with RunOnViewportThread_step [of env0 ?exiting]
  have x1: "fst (RunOnViewportThread env0 ?exiting) = Returns False"
    by simp
  from quiet(1,2) q3 q4 three(1,2) render r1 r2 r3 reading(1,3,4) f1 f2 f3 l1 x1
  show ?thesis by simp
qed

text \<open>
  The claim as it was written fails where the step re-raises.  The context is in
  \<open>StateRendering\<close>, a redraw is needed and three errors are already counted.  When the
  render call raises, the step has taken the lock and called render, makes no read, and
  does not return true; when the frame-buffer read raises, the step has rendered and
  called the read, and does not return true either.  In both cases the loop body clears
  \<open>m_isRunning\<close> of a loop that was running and stores the error, so the loop does not
  go on.
\<close>

theorem RunOnViewportThread_rethrows:
  "state (m_context viewportThreeErrors) = StateRendering
   \<and> m_isRunning viewportThreeErrors
   \<and> fst (RunOnViewportThread envRenderRaises viewportThreeErrors) = Throws
   \<and> fst (RunOnViewportThread envRenderRaises viewportThreeErrors) \<noteq> Returns True
   \<and> trace (snd (RunOnViewportThread envRenderRaises viewportThreeErrors)) =
        [ScheduleRefresh, CtxRender, CtxLock ''FireRenderContext::StateRendering'']
   \<and> m_isRunning (renderLoopBody envRenderRaises viewportThreeErrors) = False
   \<and> m_error (renderLoopBody envRenderRaises viewportThreeErrors) = True
   \<and> fst (RunOnViewportThread envReadRaises viewportThreeErrors) = Throws
   \<and> fst (RunOnViewportThread envReadRaises viewportThreeErrors) \<noteq> Returns True
   \<and> trace (snd (RunOnViewportThread envReadRaises viewportThreeErrors)) =
        [ScheduleRefresh, CtxReadFrameBuffer ToPixels 640 480 (RenderRegion 0 639 0 479),
         CtxRender, CtxLock ''FireRenderContext::StateRendering'']
   \<and> m_isRunning (renderLoopBody envReadRaises viewportThreeErrors) = False
   \<and> m_error (renderLoopBody envReadRaises viewportThreeErrors) = True"
  by (simp add: renderLoopBody_def RunOnViewportThread_def tryRenderIteration_def
        readFrameBuffer_def renderRequired_def call_def emit_def envRenderRaises_def
        envReadRaises_def viewportThreeErrors_def env0_def viewport0_def Let_def
        cong: let_weak_cong prod.case_cong_weak)

subsection \<open>Stopping and starting the render loop\<close>

lemma RunOnViewportThread_exiting:
  "state (m_context s) = StateExiting \<Longrightarrow> RunOnViewportThread E s = (Returns False, s)"
  by (simp add: RunOnViewportThread_def)

lemma renderThreadTurn_exiting:
  assumes "state (m_context s) = StateExiting"
  shows "m_context (renderThreadTurn E s) = m_context s"
    and "trace (renderThreadTurn E s) = trace s"
    and "renderThread E (trace s) \<noteq> Idle \<Longrightarrow>
           \<not> (m_isRunning (renderThreadTurn E s) \<and> threadRunning (renderThreadTurn E s))"
  using assms
  by (auto simp: renderThreadTurn_def renderLoopBody_def RunOnViewportThread_exiting
        split: thread_turn.splits)

lemma stopIteration_effect:
  "m_context (stopIteration E s) = (m_context s)\<lparr>state := StateExiting\<rparr>"
  "trace (stopIteration E s) = Sleep 10 # RunItemsQueuedForTheMainThread # trace s"
  "renderThread E (Sleep 10 # RunItemsQueuedForTheMainThread # trace s) \<noteq> Idle \<Longrightarrow>
     \<not> (m_isRunning (stopIteration E s) \<and> threadRunning (stopIteration E s))"
  by (simp_all add: stopIteration_def Let_def emit_def renderThreadTurn_exiting)

lemma stopWait_idle:
  "\<not> (m_isRunning s \<and> threadRunning s) \<Longrightarrow> stopWait E n s = Some s"
  by (cases n) auto

lemma stopWait_post:
  "stopWait E n s = Some s' \<Longrightarrow>
     \<not> (m_isRunning s' \<and> threadRunning s')
     \<and> width (m_context s') = width (m_context s) \<and> height (m_context s') = height (m_context s)
     \<and> (\<exists>new. trace s' = new @ trace s \<and> set new \<subseteq> {Sleep 10, RunItemsQueuedForTheMainThread})
     \<and> (m_isRunning s \<and> threadRunning s \<or> state (m_context s) = StateExiting \<longrightarrow>
          state (m_context s') = StateExiting)"
proof (induction n arbitrary: s)
  case 0
  then show ?case by (auto split: if_splits)
next
  case (Suc n)
  show ?case
  proof (cases "m_isRunning s \<and> threadRunning s")
    case True
    with Suc.prems have "stopWait E n (stopIteration E s) = Some s'" by simp
    from Suc.IH [OF this] show ?thesis
      by (auto simp: stopIteration_effect)
  next
    case False
    with Suc.prems show ?thesis by auto
  qed
qed

lemma stopWait_returns:
  assumes "\<forall>tr. renderThread E tr \<noteq> Idle"
  shows "stopWait E (Suc n) s \<noteq> None"
proof (cases "m_isRunning s \<and> threadRunning s")
  case True
  from assms have "\<not> (m_isRunning (stopIteration E s) \<and> threadRunning (stopIteration E s))"
    by (intro stopIteration_effect(3)) simp
  from stopWait_idle [OF this] True show ?thesis by simp
next
  case False
  then show ?thesis by auto
qed

lemma stop_post:
  "stop E n s = Some s' \<Longrightarrow>
     \<not> (m_isRunning s' \<and> threadRunning s')
     \<and> width (m_context s') = width (m_context s) \<and> height (m_context s') = height (m_context s)
     \<and> (\<exists>new. trace s' = new @ trace s
            \<and> set new \<subseteq> {DialogClose, Sleep 10, RunItemsQueuedForTheMainThread})
     \<and> (m_isRunning s \<and> threadRunning s \<longrightarrow> state (m_context s') = StateExiting)
     \<and> (\<not> (m_isRunning s \<and> threadRunning s) \<longrightarrow> m_context s' = m_context s)"
proof -
  assume a: "stop E n s = Some s'"
  then obtain s1 where s1: "stopWait E n s = Some s1"
    and s': "s' = (if dialogShown s1 \<and> m_closeDialogNeeded s1
                   then (emit DialogClose s1)\<lparr>dialogShown := False\<rparr> else s1)"
    by (auto simp: stop_def split: option.splits)
  from stopWait_post [OF s1] obtain new where
    p: "\<not> (m_isRunning s1 \<and> threadRunning s1)" "width (m_context s1) = width (m_context s)"
       "height (m_context s1) = height (m_context s)" "trace s1 = new @ trace s"
       "set new \<subseteq> {Sleep 10, RunItemsQueuedForTheMainThread}"
       "m_isRunning s \<and> threadRunning s \<longrightarrow> state (m_context s1) = StateExiting"
    by blast
  have idle: "\<not> (m_isRunning s \<and> threadRunning s) \<Longrightarrow> s1 = s"
    using s1 stopWait_idle [of s E n] by simp
  show ?thesis
  proof (cases "dialogShown s1 \<and> m_closeDialogNeeded s1")
    case True
    with s' have "trace s' = (DialogClose # new) @ trace s" by (simp add: emit_def p)
    moreover have "set (DialogClose # new) \<subseteq> {DialogClose, Sleep 10, RunItemsQueuedForTheMainThread}"
      using p(5) by auto
    ultimately have "\<exists>new. trace s' = new @ trace s
            \<and> set new \<subseteq> {DialogClose, Sleep 10, RunItemsQueuedForTheMainThread}" by blast
    with True s' p idle show ?thesis by (auto simp: emit_def)
  next
    case False
    with s' p(4,5) have "trace s' = new @ trace s"
      "set new \<subseteq> {DialogClose, Sleep 10, RunItemsQueuedForTheMainThread}" by auto
    then have "\<exists>new. trace s' = new @ trace s
            \<and> set new \<subseteq> {DialogClose, Sleep 10, RunItemsQueuedForTheMainThread}" by blast
    with False s' p idle show ?thesis by auto
  qed
qed

lemma stop_returns:
  "\<not> (m_isRunning s \<and> threadRunning s) \<Longrightarrow> stop E n s \<noteq> None"
  "\<forall>tr. renderThread E tr \<noteq> Idle \<Longrightarrow> stop E (Suc n) s \<noteq> None"
  using stopWait_idle [of s E n] stopWait_returns [of E n s]
  by (auto simp: stop_def split: option.splits)

text \<open>
  C10, as the code has it: \<open>start\<close> first stops a loop that is running, and only then
  looks at the dimensions.  When the context's width or height is zero it returns false
  and does not launch the render loop; the context is untouched if no loop was running,
  but if one was, stopping it has already set the context state to \<open>StateExiting\<close>.
  Otherwise it sets the context state to \<open>StateRendering\<close>, resets the rendering-error
  count to zero, launches the render loop and returns true, after the wait for a running
  loop has ended.  The call returns at once when no loop is running, and after one poll
  when the render thread answers every poll.
\<close>

theorem start_checks_dimensions:
  "(start E n s = Some (r, s') \<and> (width (m_context s) = 0 \<or> height (m_context s) = 0) \<longrightarrow>
      r = False
      \<and> (\<exists>new. trace s' = new @ trace s \<and> KeepRunning \<notin> set new)
      \<and> (\<not> (m_isRunning s \<and> threadRunning s) \<longrightarrow> m_context s' = m_context s)
      \<and> (m_isRunning s \<and> threadRunning s \<longrightarrow> state (m_context s') = StateExiting))
   \<and> (start E n s = Some (r, s') \<and> width (m_context s) \<noteq> 0 \<and> height (m_context s) \<noteq> 0 \<longrightarrow>
      r = True \<and> state (m_context s') = StateRendering \<and> m_renderingErrors s' = 0
      \<and> m_isRunning s' = False
      \<and> (\<exists>new. trace s' = KeepRunning # new @ trace s \<and> KeepRunning \<notin> set new)
      \<and> (m_isRunning s \<longrightarrow>
           (\<exists>s1. stop E n s = Some s1 \<and> \<not> (m_isRunning s1 \<and> threadRunning s1))))
   \<and> (\<not> (m_isRunning s \<and> threadRunning s) \<longrightarrow> start E n s \<noteq> None)
   \<and> ((\<forall>tr. renderThread E tr \<noteq> Idle) \<longrightarrow> start E (Suc n) s \<noteq> None)"
proof -
  have ret1: "\<not> (m_isRunning s \<and> threadRunning s) \<Longrightarrow> start E n s \<noteq> None"
    using stop_returns(1) [of s E n]
    by (auto simp: start_def Let_def split: option.splits)
  have ret2: "\<forall>tr. renderThread E tr \<noteq> Idle \<Longrightarrow> start E (Suc n) s \<noteq> None"
    using stop_returns(2) [of E n s]
    by (auto simp: start_def Let_def split: option.splits)
  have main: "start E n s = Some (r, s') \<Longrightarrow>
      (width (m_context s) = 0 \<or> height (m_context s) = 0 \<longrightarrow>
        r = False
        \<and> (\<exists>new. trace s' = new @ trace s \<and> KeepRunning \<notin> set new)
        \<and> (\<not> (m_isRunning s \<and> threadRunning s) \<longrightarrow> m_context s' = m_context s)
        \<and> (m_isRunning s \<and> threadRunning s \<longrightarrow> state (m_context s') = StateExiting))
      \<and> (width (m_context s) \<noteq> 0 \<and> height (m_context s) \<noteq> 0 \<longrightarrow>
        r = True \<and> state (m_context s') = StateRendering \<and> m_renderingErrors s' = 0
        \<and> m_isRunning s' = False
        \<and> (\<exists>new. trace s' = KeepRunning # new @ trace s \<and> KeepRunning \<notin> set new)
        \<and> (m_isRunning s \<longrightarrow>
             (\<exists>s1. stop E n s = Some s1 \<and> \<not> (m_isRunning s1 \<and> threadRunning s1))))"
  proof (cases "m_isRunning s")
    case False
    assume "start E n s = Some (r, s')"
    with False show ?thesis
      by (auto simp: start_def Let_def emit_def split: if_splits)
  next
    case True
    assume a: "start E n s = Some (r, s')"
    with True obtain s1 where s1: "stop E n s = Some s1"
      by (auto simp: start_def split: option.splits)
    from stop_post [OF s1] obtain new where
      p: "\<not> (m_isRunning s1 \<and> threadRunning s1)" "width (m_context s1) = width (m_context s)"
         "height (m_context s1) = height (m_context s)" "trace s1 = new @ trace s"
         "set new \<subseteq> {DialogClose, Sleep 10, RunItemsQueuedForTheMainThread}"
         "m_isRunning s \<and> threadRunning s \<longrightarrow> state (m_context s1) = StateExiting"
         "\<not> (m_isRunning s \<and> threadRunning s) \<longrightarrow> m_context s1 = m_context s"
      by blast
    from p(5) have nk: "KeepRunning \<notin> set new" by auto
    show ?thesis
    proof (cases "width (m_context s) = 0 \<or> height (m_context s) = 0")
      case zero: True
      with a True s1 p have "r = False" "s' = s1" by (auto simp: start_def)
      with zero p nk show ?thesis by auto
    next
      case nonzero: False
      with a True s1 p have r: "r = True"
        and s': "s' = emit KeepRunning
                   ((emit (CtxLock ''FireRenderViewport::start'') s1)
                      \<lparr>m_context := (m_context s1)\<lparr>state := StateRendering\<rparr>,
                       m_isRunning := False, m_renderingErrors := 0\<rparr>)"
        by (auto simp: start_def Let_def emit_def)
      have "trace s' = KeepRunning # (CtxLock ''FireRenderViewport::start'' # new) @ trace s"
        by (simp add: s' emit_def p)
      moreover have "KeepRunning \<notin> set (CtxLock ''FireRenderViewport::start'' # new)"
        using nk by simp
      ultimately have "\<exists>new. trace s' = KeepRunning # new @ trace s \<and> KeepRunning \<notin> set new"
        by blast
      with nonzero r s1 p(1) show ?thesis by (simp add: s' emit_def)
    qed
  qed
  from main ret1 ret2 show ?thesis by blast
qed

theorem start_checks_dimensions_witness:
  "(\<forall>tr. renderThread env0 tr \<noteq> Idle)
   \<and> width (m_context (viewport0\<lparr>m_isRunning := True\<rparr>)) \<noteq> 0
   \<and> height (m_context (viewport0\<lparr>m_isRunning := True\<rparr>)) \<noteq> 0
   \<and> map_option fst (start env0 1 (viewport0\<lparr>m_isRunning := True\<rparr>)) = Some True
   \<and> map_option (state \<circ> m_context \<circ> snd) (start env0 1 (viewport0\<lparr>m_isRunning := True\<rparr>))
       = Some StateRendering
   \<and> width (m_context viewportRunningNoWidth) = 0
   \<and> m_isRunning viewportRunningNoWidth \<and> threadRunning viewportRunningNoWidth
   \<and> map_option fst (start env0 1 viewportRunningNoWidth) = Some False
   \<and> map_option (state \<circ> m_context \<circ> snd) (start env0 1 viewportRunningNoWidth)
       = Some StateExiting
   \<and> \<not> (m_isRunning viewport0 \<and> threadRunning viewport0)
   \<and> start env0 0 viewport0 \<noteq> None"
proof -
  let ?run = "viewport0\<lparr>m_isRunning := True\<rparr>"
  have polls: "\<forall>tr. renderThread env0 tr \<noteq> Idle"
    by (simp add: env0_def)
  have dims: "width (m_context ?run) \<noteq> 0" "height (m_context ?run) \<noteq> 0"
    by (simp_all add: viewport0_def)
  have zero: "width (m_context viewportRunningNoWidth) = 0"
    "m_isRunning viewportRunningNoWidth \<and> threadRunning viewportRunningNoWidth"
    by (simp_all add: viewportRunningNoWidth_def viewport0_def)
  have rest: "\<not> (m_isRunning viewport0 \<and> threadRunning viewport0)"
    by (simp add: viewport0_def)
  from start_checks_dimensions [of env0 0 ?run] polls
  have "start env0 1 ?run \<noteq> None" by simp
  then obtain r1 s1 where e1: "start env0 1 ?run = Some (r1, s1)" by auto
  from start_checks_dimensions [of env0 1 ?run r1 s1] e1 dims
  have c1: "r1 = True \<and> state (m_context s1) = StateRendering" by blast
  from start_checks_dimensions [of env0 0 viewportRunningNoWidth] polls
  have "start env0 1 viewportRunningNoWidth \<noteq> None" by simp
  then obtain r2 s2 where e2: "start env0 1 viewportRunningNoWidth = Some (r2, s2)" by auto
  from start_checks_dimensions [of env0 1 viewportRunningNoWidth r2 s2] e2 zero
  have c2: "r2 = False \<and> state (m_context s2) = StateExiting" by blast
  from start_checks_dimensions [of env0 0 viewport0] rest
  have c3: "start env0 0 viewport0 \<noteq> None" by blast
  from polls dims zero rest e1 c1 e2 c2 c3 show ?thesis by simp
qed

text \<open>
  The claim as it was written fails for a viewport whose loop is running and whose
  context has width zero: \<open>start\<close> returns false, but the context state has gone from
  \<open>StateRendering\<close> to \<open>StateExiting\<close>.
\<close>

theorem start_changes_state_before_check:
  "width (m_context viewportRunningNoWidth) = 0
   \<and> state (m_context viewportRunningNoWidth) = StateRendering
   \<and> map_option fst (start env0 1 viewportRunningNoWidth) = Some False
   \<and> map_option (state \<circ> m_context \<circ> snd) (start env0 1 viewportRunningNoWidth)
       = Some StateExiting"
  by (simp add: start_def stop_def stopIteration_def renderThreadTurn_def renderLoopBody_def
        RunOnViewportThread_def emit_def Let_def env0_def viewport0_def viewportRunningNoWidth_def)

subsection \<open>Cached frames and viewport setup\<close>























section \<open>Properties of the toon material\<close>

lemma toonShader_plain:
  "\<exists>settings. toonShader node = Shader ShaderTypeToon settings \<and> \<not> list_ex isLightSetting settings"
  by (simp add: toonShader_def Let_def)

lemma linkLight_plain:
  "\<exists>settings'. fst (linkLight scope (Shader t settings)) = Shader t settings'
     \<and> (list_ex isLightSetting settings' \<longleftrightarrow>
          list_ex isLightSetting settings
          \<or> (GetRenderType scope \<noteq> Thumbnail \<and> GetRenderType scope \<noteq> Undefined
              \<and> (\<exists>light rprLight. linkedLightNode scope = Some light
                    \<and> GetRprLightFromNode scope light = Some rprLight)))"
  by (auto simp: linkLight_def split: option.splits)

text \<open>
  C6: \<open>GetShader\<close> returns a blend exactly when the \<open>transparencyEnable\<close> plug is true,
  and the blend is the toon shader with a transparent shader, weighted by the
  \<open>transparencyLevel\<close> plug.  In that case the result is the same whatever
  \<open>enableLightLinking\<close> says, and no light is linked anywhere in it.  Without
  transparency a light is linked exactly when light linking is enabled, the render type
  is neither thumbnail nor undefined, and the linked light resolves to a light of the
  renderer.
\<close>

theorem GetShader_transparency:
  "(isBlend (fst (GetShader scope node)) \<longleftrightarrow> Attribute_transparencyEnable node)
   \<and> (Attribute_transparencyEnable node \<longrightarrow>
        (\<exists>settings. fst (GetShader scope node)
             = ShaderBlend (Shader ShaderTypeToon settings) (Shader ShaderTypeTransparent [])
                 (Attribute_transparencyLevel node))
        \<and> \<not> lightLinked (fst (GetShader scope node))
        \<and> GetShader scope node = GetShader scope (node\<lparr>Attribute_enableLightLinking := False\<rparr>))
   \<and> (\<not> Attribute_transparencyEnable node \<longrightarrow>
        (lightLinked (fst (GetShader scope node)) \<longleftrightarrow>
           Attribute_enableLightLinking node
           \<and> GetRenderType scope \<noteq> Thumbnail \<and> GetRenderType scope \<noteq> Undefined
           \<and> (\<exists>light rprLight. linkedLightNode scope = Some light
                 \<and> GetRprLightFromNode scope light = Some rprLight)))"
proof -
  obtain settings where s: "toonShader node = Shader ShaderTypeToon settings"
    and nl: "\<not> list_ex isLightSetting settings"
    using toonShader_plain [of node] by blast
  show ?thesis
  proof (cases "Attribute_transparencyEnable node")
    case True
    have same: "GetShader scope node = GetShader scope (node\<lparr>Attribute_enableLightLinking := False\<rparr>)"
      using True by (simp add: GetShader_def toonShader_def toonRamp_def Let_def)
    from True s nl have
      "isBlend (fst (GetShader scope node))"
      "\<exists>settings. fst (GetShader scope node)
         = ShaderBlend (Shader ShaderTypeToon settings) (Shader ShaderTypeTransparent [])
             (Attribute_transparencyLevel node)"
      "\<not> lightLinked (fst (GetShader scope node))"
      by (simp_all add: GetShader_def)
    with True same show ?thesis by blast
  next
    case False
    show ?thesis
    proof (cases "Attribute_enableLightLinking node")
      case True
      from linkLight_plain [of scope ShaderTypeToon settings] obtain settings' where
        "fst (linkLight scope (Shader ShaderTypeToon settings)) = Shader ShaderTypeToon settings'"
        "list_ex isLightSetting settings' \<longleftrightarrow>
          list_ex isLightSetting settings
          \<or> (GetRenderType scope \<noteq> Thumbnail \<and> GetRenderType scope \<noteq> Undefined
              \<and> (\<exists>light rprLight. linkedLightNode scope = Some light
                    \<and> GetRprLightFromNode scope light = Some rprLight))"
        by blast
      with False True s nl show ?thesis by (simp add: GetShader_def)
    next
      case noLink: False
      with False s nl show ?thesis by (simp add: GetShader_def)
    qed
  qed
qed

theorem GetShader_transparency_witness:
  "Attribute_transparencyEnable toonNode0 \<and> Attribute_enableLightLinking toonNode0
   \<and> isBlend (fst (GetShader scope0 toonNode0))
   \<and> \<not> lightLinked (fst (GetShader scope0 toonNode0))
   \<and> \<not> Attribute_transparencyEnable (toonNode0\<lparr>Attribute_transparencyEnable := False\<rparr>)
   \<and> \<not> isBlend (fst (GetShader scope0 (toonNode0\<lparr>Attribute_transparencyEnable := False\<rparr>)))
   \<and> lightLinked (fst (GetShader scope0 (toonNode0\<lparr>Attribute_transparencyEnable := False\<rparr>)))"
proof -
  let ?opaque = "toonNode0\<lparr>Attribute_transparencyEnable := False\<rparr>"
  have h1: "Attribute_transparencyEnable toonNode0" "Attribute_enableLightLinking toonNode0"
    by (simp_all add: toonNode0_def)
  from GetShader_transparency [of scope0 toonNode0] h1
  have c1: "isBlend (fst (GetShader scope0 toonNode0))"
    "\<not> lightLinked (fst (GetShader scope0 toonNode0))" by blast+
  have h2: "\<not> Attribute_transparencyEnable ?opaque" "Attribute_enableLightLinking ?opaque"
    by (simp_all add: toonNode0_def)
  have h3: "GetRenderType scope0 \<noteq> Thumbnail \<and> GetRenderType scope0 \<noteq> Undefined
            \<and> (\<exists>light rprLight. linkedLightNode scope0 = Some light
                  \<and> GetRprLightFromNode scope0 light = Some rprLight)"
    by (simp add: scope0_def)
  from GetShader_transparency [of scope0 ?opaque] h2 h3
  have c2: "\<not> isBlend (fst (GetShader scope0 ?opaque))"
    "lightLinked (fst (GetShader scope0 ?opaque))" by blast+
  from h1 h2 c1 c2 show ?thesis by blast
qed

section \<open>Properties of the MASH instancer\<close>

lemma transformMatricesLoop_reads:
  "\<forall>i\<in>set idx. i < length (positionData sc) \<and> i < length (rotationData sc)
      \<and> i < length (scaleData sc) \<Longrightarrow>
   transformMatricesLoop M sc idx
     = Inr (map (\<lambda>i. mashMatrix M (positionData sc ! i) (rotationData sc ! i) (scaleData sc ! i)) idx)"
  by (induction idx) auto

lemma transformMatricesLoop_parent:
  "transformMatricesLoop M (sc\<lparr>targetParentTransformation := tp\<rparr>) idx
     = transformMatricesLoop M sc idx"
  by (induction idx) (auto split: sum.splits)

lemma generateLoop_dom:
  "dom (map_of (generateLoop idx objs)) = dom (map_of objs) \<union> set idx"
  by (induction idx arbitrary: objs) (auto simp: update_conv')

lemma freshenLoop_sets:
  assumes "\<forall>i\<in>set idx. i < length mats \<and> map_of objs i \<noteq> None"
  shows "\<exists>objs'. freshenLoop M T I mats idx objs = (None, objs')
           \<and> (\<forall>i\<in>set idx. \<exists>inst. map_of objs' i = Some inst
                  \<and> selfTransform inst = Some (matrixMult M (matrixMult M T (mats ! i)) I)
                  \<and> meshDirty inst)
           \<and> (\<forall>k. k \<notin> set idx \<longrightarrow> map_of objs' k = map_of objs k)"
  using assms
proof (induction idx arbitrary: objs)
  case Nil
  then show ?case by simp
next
  case (Cons i rest)
  from Cons.prems obtain inst where inst: "map_of objs i = Some inst" and len: "i < length mats"
    by auto
  let ?inst' = "inst\<lparr>selfTransform := Some (matrixMult M (matrixMult M T (mats ! i)) I),
                     rebuilds := rebuilds inst + 1, meshDirty := True\<rparr>"
  let ?objs1 = "AList.update i ?inst' objs"
  have "\<forall>j\<in>set rest. j < length mats \<and> map_of ?objs1 j \<noteq> None"
    using Cons.prems by (auto simp: update_conv')
  from Cons.IH [OF this] obtain objs' where
    run: "freshenLoop M T I mats rest ?objs1 = (None, objs')"
    and placed: "\<forall>j\<in>set rest. \<exists>inst. map_of objs' j = Some inst
                  \<and> selfTransform inst = Some (matrixMult M (matrixMult M T (mats ! j)) I)
                  \<and> meshDirty inst"
    and others: "\<forall>k. k \<notin> set rest \<longrightarrow> map_of objs' k = map_of ?objs1 k"
    by blast
  have step: "freshenLoop M T I mats (i # rest) objs = (None, objs')"
    using inst len run by simp
  have here: "\<exists>inst. map_of objs' i = Some inst
                  \<and> selfTransform inst = Some (matrixMult M (matrixMult M T (mats ! i)) I)
                  \<and> meshDirty inst"
  proof (cases "i \<in> set rest")
    case True
    with placed show ?thesis by blast
  next
    case False
    with others have "map_of objs' i = Some ?inst'" by (simp add: update_conv')
    then show ?thesis by simp
  qed
  have "\<forall>k. k \<notin> set (i # rest) \<longrightarrow> map_of objs' k = map_of objs k"
    using others by (simp add: update_conv')
  with step here placed show ?case by auto
qed


lemma GetTransformMatrices_reads:
  assumes "instanceCount sc < 2 ^ 32"
    and "instanceCount sc \<le> length (positionData sc)"
    and "instanceCount sc \<le> length (rotationData sc)"
    and "instanceCount sc \<le> length (scaleData sc)"
  shows "GetTransformMatrices M sc
           = Inr (map (\<lambda>i. mashMatrix M (positionData sc ! i) (rotationData sc ! i)
                              (scaleData sc ! i)) [0 ..< instanceCount sc])"
  using assms by (simp add: GetTransformMatrices_def transformMatricesLoop_reads)

lemma GenerateInstances_fills:
  assumes "targetObjects sc = first # others"
    and "targetParentTransformation sc first = Some parent"
  shows "\<exists>node'. GenerateInstances sc node = (None, node')
           \<and> (\<forall>i < instanceCount sc. map_of (m_instancedObjects node') i \<noteq> None)
           \<and> m_instancedObjectsCachedSize node' = m_instancedObjectsCachedSize node"
proof (cases "instanceCount sc = 0")
  case True
  with assms show ?thesis by (simp add: GenerateInstances_def)
next
  case False
  have "\<forall>i < instanceCount sc.
          i \<in> dom (map_of (generateLoop [0 ..< instanceCount sc] (m_instancedObjects node)))"
    by (simp add: generateLoop_dom)
  then have "\<forall>i < instanceCount sc.
          map_of (generateLoop [0 ..< instanceCount sc] (m_instancedObjects node)) i \<noteq> None"
    by blast
  with False assms show ?thesis by (simp add: GenerateInstances_def)
qed

text \<open>
  C5: when the instancer has a target object whose render mesh exists, the MASH arrays
  hold an entry for every instance, and the instance table is empty (so that it is
  generated) or holds every index below the instance count, \<open>Freshen\<close> gives every
  instance \<open>i\<close> below the instance count the transform
  \<open>targetNodeMatrix * mashMatrix i * instancerMatrix\<close>, where \<open>targetNodeMatrix\<close> is
  the transformation of the parent of the target mesh with its translation set to zero
  and \<open>mashMatrix i\<close> is built from the \<open>i\<close>-th MASH scale, rotation (each angle through
  \<open>deg2rad\<close>, order XYZ) and position.  Two scenes whose target parents agree once the
  translation is set to zero give the same result, so the translation of the target node
  has no effect.  With no target object \<open>Freshen\<close> returns the instancer as it was.
\<close>

theorem Freshen_places_instances:
  "(targetObjects sc = [] \<longrightarrow> Freshen M sc node = (None, node))
   \<and> (targetObjects sc = first # others
       \<and> targetParentTransformation sc first = Some parent
       \<and> instanceCount sc < 2 ^ 32
       \<and> instanceCount sc \<le> length (positionData sc)
       \<and> instanceCount sc \<le> length (rotationData sc)
       \<and> instanceCount sc \<le> length (scaleData sc)
       \<and> (m_instancedObjects node = []
           \<or> (\<forall>i < instanceCount sc. map_of (m_instancedObjects node) i \<noteq> None)) \<longrightarrow>
       (\<exists>node'. Freshen M sc node = (None, node')
          \<and> m_instancedObjectsCachedSize node' = instanceCount sc
          \<and> (\<forall>i < instanceCount sc.
                \<exists>inst. map_of (m_instancedObjects node') i = Some inst
                  \<and> meshDirty inst
                  \<and> selfTransform inst
                      = Some (matrixMult M
                                (matrixMult M
                                   (asMatrix M (setTranslation M (0, 0, 0) kObject parent))
                                   (mashMatrix M (positionData sc ! i) (rotationData sc ! i)
                                      (scaleData sc ! i)))
                                (asMatrix M (instancerTransformation sc))))))
   \<and> mashMatrix M position (rx, ry, rz) scale
       = asMatrix M
           (setTranslation M position kWorld
              (setRotation M (deg2rad M rx, deg2rad M ry, deg2rad M rz) kXYZ
                 (setScale M scale kWorld (identityTransformation M))))
   \<and> ((\<forall>obj. map_option (setTranslation M (0, 0, 0) kObject) (moved obj)
               = map_option (setTranslation M (0, 0, 0) kObject) (targetParentTransformation sc obj)) \<longrightarrow>
        Freshen M (sc\<lparr>targetParentTransformation := moved\<rparr>) node = Freshen M sc node)"
proof -
  let ?T = "asMatrix M (setTranslation M (0, 0, 0) kObject parent)"
  let ?I = "asMatrix M (instancerTransformation sc)"
  let ?mash = "\<lambda>i. mashMatrix M (positionData sc ! i) (rotationData sc ! i) (scaleData sc ! i)"
  have empty: "targetObjects sc = [] \<Longrightarrow> Freshen M sc node = (None, node)"
    by (simp add: Freshen_def)
  have placed:
    "\<exists>node'. Freshen M sc node = (None, node')
          \<and> m_instancedObjectsCachedSize node' = instanceCount sc
          \<and> (\<forall>i < instanceCount sc.
                \<exists>inst. map_of (m_instancedObjects node') i = Some inst \<and> meshDirty inst
                  \<and> selfTransform inst = Some (matrixMult M (matrixMult M ?T (?mash i)) ?I))"
    if targets: "targetObjects sc = first # others"
      and parent: "targetParentTransformation sc first = Some parent"
      and count: "instanceCount sc < 2 ^ 32"
      and arrays: "instanceCount sc \<le> length (positionData sc)"
        "instanceCount sc \<le> length (rotationData sc)" "instanceCount sc \<le> length (scaleData sc)"
      and present: "m_instancedObjects node = []
           \<or> (\<forall>i < instanceCount sc. map_of (m_instancedObjects node) i \<noteq> None)"
  proof -
    obtain node1 where gen:
      "(if m_instancedObjects node = [] then GenerateInstances sc node else (None, node))
         = (None, node1)"
      and filled: "\<forall>i < instanceCount sc. map_of (m_instancedObjects node1) i \<noteq> None"
    proof (cases "m_instancedObjects node = []")
      case True
      from GenerateInstances_fills [OF targets parent, of node] True that show ?thesis by auto
    next
      case False
      with present that show ?thesis by auto
    qed
    let ?mats = "map ?mash [0 ..< instanceCount sc]"
    have mats: "GetTransformMatrices M sc = Inr ?mats"
      using count arrays by (rule GetTransformMatrices_reads)
    have "\<forall>i\<in>set [0 ..< instanceCount sc].
            i < length ?mats \<and> map_of (m_instancedObjects node1) i \<noteq> None"
      using filled by simp
    from freshenLoop_sets [OF this, of M ?T ?I] obtain objs' where
      run: "freshenLoop M ?T ?I ?mats [0 ..< instanceCount sc] (m_instancedObjects node1)
              = (None, objs')"
      and set: "\<forall>i\<in>set [0 ..< instanceCount sc]. \<exists>inst. map_of objs' i = Some inst
                  \<and> selfTransform inst = Some (matrixMult M (matrixMult M ?T (?mats ! i)) ?I)
                  \<and> meshDirty inst"
      by blast
    have result: "Freshen M sc node
            = (None, node1\<lparr>m_instancedObjects := objs',
                            m_instancedObjectsCachedSize := instanceCount sc\<rparr>)"
      using targets parent gen mats run by (simp add: Freshen_def Let_def)
    from set have "\<forall>i < instanceCount sc. \<exists>inst. map_of objs' i = Some inst \<and> meshDirty inst
                  \<and> selfTransform inst = Some (matrixMult M (matrixMult M ?T (?mash i)) ?I)"
      by auto
    with result show ?thesis by simp
  qed
  have mash: "mashMatrix M position (rx, ry, rz) scale
       = asMatrix M
           (setTranslation M position kWorld
              (setRotation M (deg2rad M rx, deg2rad M ry, deg2rad M rz) kXYZ
                 (setScale M scale kWorld (identityTransformation M))))"
    by (simp add: mashMatrix_def)
  have moved: "Freshen M (sc\<lparr>targetParentTransformation := moved\<rparr>) node = Freshen M sc node"
    if same: "\<forall>obj. map_option (setTranslation M (0, 0, 0) kObject) (moved obj)
               = map_option (setTranslation M (0, 0, 0) kObject) (targetParentTransformation sc obj)"
  proof (cases "targetObjects sc")
    case Nil
    then show ?thesis by (simp add: Freshen_def)
  next
    case (Cons f rest)
    from same have f: "map_option (setTranslation M (0, 0, 0) kObject) (moved f)
               = map_option (setTranslation M (0, 0, 0) kObject) (targetParentTransformation sc f)"
      by blast
    then have none: "moved f = None \<longleftrightarrow> targetParentTransformation sc f = None"
      by (cases "moved f"; cases "targetParentTransformation sc f") auto
    have gen: "GenerateInstances (sc\<lparr>targetParentTransformation := moved\<rparr>) node
                 = GenerateInstances sc node"
      using Cons none by (simp add: GenerateInstances_def)
    have mats: "GetTransformMatrices M (sc\<lparr>targetParentTransformation := moved\<rparr>)
                  = GetTransformMatrices M sc"
      by (simp add: GetTransformMatrices_def transformMatricesLoop_parent)
    show ?thesis
    proof (cases "moved f")
      case None
      with none Cons gen show ?thesis by (auto simp: Freshen_def Let_def split_def)
    next
      case (Some p')
      with none obtain p where p: "targetParentTransformation sc f = Some p" by auto
      with f Some have "setTranslation M (0, 0, 0) kObject p' = setTranslation M (0, 0, 0) kObject p"
        by simp
      with Cons Some p gen mats show ?thesis
        by (auto simp: Freshen_def Let_def split_def split: sum.splits)
    qed
  qed
  from empty placed mash moved show ?thesis by blast
qed

theorem Freshen_places_instances_witness:
  "targetObjects scene0 = [5]
   \<and> targetParentTransformation scene0 5 = Some ((1, 2, 3), (0, 0, 0), (1, 1, 1))
   \<and> instanceCount scene0 = 2
   \<and> m_instancedObjects instancer0 = []
   \<and> fst (Freshen mayaSymbolic scene0 instancer0) = None
   \<and> m_instancedObjectsCachedSize (snd (Freshen mayaSymbolic scene0 instancer0)) = 2
   \<and> map_option selfTransform
        (map_of (m_instancedObjects (snd (Freshen mayaSymbolic scene0 instancer0))) 1)
       = Some (Some [((0, 0, 0), (0, 0, 0), (1, 1, 1)),
                     ((4, 0, 0), (pi / 2, 0, 0), (2, 2, 2)),
                     ((10, 0, 0), (0, 0, 0), (1, 1, 1))])
   \<and> Freshen mayaSymbolic (scene0\<lparr>targetObjects := []\<rparr>) instancer0 = (None, instancer0)
   \<and> Freshen mayaSymbolic (scene0\<lparr>targetParentTransformation := movedParent0\<rparr>) instancer0
       = Freshen mayaSymbolic scene0 instancer0"
proof -
  let ?parent = "((1, 2, 3), (0, 0, 0), (1, 1, 1)) :: MVector \<times> MVector \<times> MVector"
  note here = Freshen_places_instances
    [where sc = scene0 and M = mayaSymbolic and node = instancer0 and first = 5
       and others = "[]" and parent = ?parent and moved = movedParent0]
  have h: "targetObjects scene0 = [5]" "targetParentTransformation scene0 5 = Some ?parent"
    "instanceCount scene0 = 2" "m_instancedObjects instancer0 = []"
    "instanceCount scene0 \<le> length (positionData scene0)"
    "instanceCount scene0 \<le> length (rotationData scene0)"
    "instanceCount scene0 \<le> length (scaleData scene0)"
    by (simp_all add: scene0_def instancer0_def)
  have small: "instanceCount scene0 < 2 ^ 32" by (simp add: h)
  from here h small obtain node' where
    run: "Freshen mayaSymbolic scene0 instancer0 = (None, node')"
    and size: "m_instancedObjectsCachedSize node' = instanceCount scene0"
    and each: "\<forall>i < instanceCount scene0.
                \<exists>inst. map_of (m_instancedObjects node') i = Some inst
                  \<and> meshDirty inst
                  \<and> selfTransform inst
                      = Some (matrixMult mayaSymbolic
                                (matrixMult mayaSymbolic
                                   (asMatrix mayaSymbolic
                                      (setTranslation mayaSymbolic (0, 0, 0) kObject ?parent))
                                   (mashMatrix mayaSymbolic (positionData scene0 ! i)
                                      (rotationData scene0 ! i) (scaleData scene0 ! i)))
                                (asMatrix mayaSymbolic (instancerTransformation scene0)))"
    by blast
  from each h(3) obtain inst where
    "map_of (m_instancedObjects node') 1 = Some inst"
    "selfTransform inst
       = Some (matrixMult mayaSymbolic
                 (matrixMult mayaSymbolic
                    (asMatrix mayaSymbolic (setTranslation mayaSymbolic (0, 0, 0) kObject ?parent))
                    (mashMatrix mayaSymbolic (positionData scene0 ! 1) (rotationData scene0 ! 1)
                       (scaleData scene0 ! 1)))
                 (asMatrix mayaSymbolic (instancerTransformation scene0)))"
    by (metis one_less_numeral_iff semiring_norm(76))
  then have one: "map_option selfTransform (map_of (m_instancedObjects node') 1)
       = Some (Some [((0, 0, 0), (0, 0, 0), (1, 1, 1)),
                     ((4, 0, 0), (pi / 2, 0, 0), (2, 2, 2)),
                     ((10, 0, 0), (0, 0, 0), (1, 1, 1))])"
    by (simp add: mayaSymbolic_def scene0_def mashMatrix_def)
  have "targetObjects (scene0\<lparr>targetObjects := []\<rparr>) = []" by simp
  with Freshen_places_instances [where sc = "scene0\<lparr>targetObjects := []\<rparr>" and M = mayaSymbolic
         and node = instancer0]
  have none: "Freshen mayaSymbolic (scene0\<lparr>targetObjects := []\<rparr>) instancer0 = (None, instancer0)"
    by blast
  have "\<forall>obj. map_option (setTranslation mayaSymbolic (0, 0, 0) kObject) (movedParent0 obj)
               = map_option (setTranslation mayaSymbolic (0, 0, 0) kObject)
                   (targetParentTransformation scene0 obj)"
    by (simp add: movedParent0_def scene0_def mayaSymbolic_def)
  with here have same:
    "Freshen mayaSymbolic (scene0\<lparr>targetParentTransformation := movedParent0\<rparr>) instancer0
       = Freshen mayaSymbolic scene0 instancer0"
    by blast
  from h run size one none same show ?thesis by simp
qed

end
